theory Spec2Isabelle
  imports Main
begin

section \<open>Data model (models/User.js, models/Session.js, models/Package.js, models/Transaction.js)\<close>

text \<open>
  Object ids and request parameters are strings, as \<^verbatim>\<open>_id.toString()\<close> and
  \<^verbatim>\<open>req.params\<close> are. Dates are milliseconds since the epoch (\<^verbatim>\<open>Date\<close> minus
  \<^verbatim>\<open>Date\<close> is a number of milliseconds). Token amounts, durations and ratings are
  integers; an optional schema path without a default is an \<open>option\<close>.
\<close>

type_synonym oid = string
type_synonym date = int

datatype role = User | Trainer | Admin

datatype status = Scheduled | Live | Completed | Cancelled

definition string_of_status :: "status \<Rightarrow> string" where
  "string_of_status s =
     (case s of Scheduled \<Rightarrow> ''scheduled'' | Live \<Rightarrow> ''live''
      | Completed \<Rightarrow> ''completed'' | Cancelled \<Rightarrow> ''cancelled'')"

text \<open>The schema's \<^verbatim>\<open>enum: ['scheduled', 'live', 'completed', 'cancelled']\<close>: a string
  outside the enum fails validation when the document is saved.\<close>

definition status_of_string :: "string \<Rightarrow> status option" where
  "status_of_string str =
     (if str = ''scheduled'' then Some Scheduled
      else if str = ''live'' then Some Live
      else if str = ''completed'' then Some Completed
      else if str = ''cancelled'' then Some Cancelled
      else None)"

record booking =
  b_session :: oid
  b_bookedAt :: date

record completed_session =
  c_session :: oid
  c_completedAt :: date
  c_rating :: int
  c_feedback :: "string option"

text \<open>\<open>tp_rating\<close> is \<^verbatim>\<open>trainerProfile.rating\<close> in tenths (43 stands for 4.3).\<close>

record user =
  u_id :: oid
  u_role :: role
  tokens :: int
  bookedSessions :: "booking list"
  completedSessions :: "completed_session list"
  tp_rating :: int
  tp_totalRatings :: nat
  u_updatedAt :: date

text \<open>A participant: \<open>p_duration\<close> is in seconds (\<^verbatim>\<open>type: Number // in seconds\<close>).\<close>

record participant =
  p_user :: oid
  p_joinedAt :: "date option"
  p_leaveAt :: "date option"
  p_duration :: "int option"
  p_messages :: nat
  p_reactions :: nat

record rating_entry =
  r_user :: oid
  r_rating :: int
  r_feedback :: "string option"
  r_createdAt :: date

text \<open>A chat text is a JavaScript string: a list of UTF-16 code units.\<close>

type_synonym js_text = "nat list"

record message_entry =
  m_user :: oid
  m_message :: js_text
  m_timestamp :: date

record reaction_entry =
  x_user :: oid
  x_type :: string
  x_timestamp :: date

text \<open>A session: \<open>duration\<close> is in minutes (\<^verbatim>\<open>type: Number, // in minutes\<close>);
  \<open>averageRating\<close> is in tenths, as \<^verbatim>\<open>toFixed(1)\<close> produces one decimal;
  \<open>sd_\<close> fields are those of \<^verbatim>\<open>streamingDetails\<close>. Title, description, category,
  difficulty, equipment and tags are not modelled.\<close>

record session =
  s_id :: oid
  trainer :: oid
  scheduledAt :: date
  duration :: int
  tokenCost :: int
  maxParticipants :: int
  participants :: "participant list"
  status :: status
  sd_channelName :: "string option"
  sd_resourceId :: "string option"
  sd_sid :: "string option"
  sd_startedAt :: "date option"
  sd_endedAt :: "date option"
  ratings :: "rating_entry list"
  averageRating :: int
  messages :: "message_entry list"
  reactions :: "reaction_entry list"
  updatedAt :: date

record package =
  pk_id :: oid
  tokenAmount :: int
  price :: int
  active :: bool
  isPromotion :: bool
  validUntil :: "date option"

datatype tx_status = Pending | TxCompleted | Failed | Refunded

record transaction =
  t_user :: oid
  t_package :: oid
  t_tokenAmount :: int
  t_amount :: int
  t_paymentMethod :: string
  t_status :: tx_status

text \<open>The document store: one collection per model.\<close>

record store =
  sessions :: "session list"
  users :: "user list"
  packages :: "package list"
  transactions :: "transaction list"

text \<open>\<^verbatim>\<open>req.user\<close>, set by the authentication middleware.\<close>

record req_user =
  req_id :: oid
  req_role :: role

record response =
  status_code :: nat
  message :: string

definition respond :: "nat \<Rightarrow> string \<Rightarrow> response" where
  "respond c m = \<lparr>status_code = c, message = m\<rparr>"

text \<open>An exception reaches \<^verbatim>\<open>next(err)\<close> and the error handler answers 500; the
  message it sends is the error's own and is not modelled.\<close>

definition server_error :: response where
  "server_error = respond 500 ''Something went wrong''"

subsection \<open>Collection access\<close>

definition findSessionById :: "oid \<Rightarrow> session list \<Rightarrow> session option" where
  "findSessionById i ss = find (\<lambda>s. s_id s = i) ss"

definition findUserById :: "oid \<Rightarrow> user list \<Rightarrow> user option" where
  "findUserById i us = find (\<lambda>u. u_id u = i) us"

definition findPackageById :: "oid \<Rightarrow> package list \<Rightarrow> package option" where
  "findPackageById i ps = find (\<lambda>p. pk_id p = i) ps"

text \<open>\<^verbatim>\<open>doc.save()\<close> writes the document back under its \<^verbatim>\<open>_id\<close>; the
  \<^verbatim>\<open>pre('save')\<close> hook of both schemas sets \<^verbatim>\<open>updatedAt\<close>.\<close>

definition save_session :: "date \<Rightarrow> session \<Rightarrow> session list \<Rightarrow> session list" where
  "save_session now s ss =
     map (\<lambda>v. if s_id v = s_id s then s\<lparr>updatedAt := now\<rparr> else v) ss"

definition save_user :: "date \<Rightarrow> user \<Rightarrow> user list \<Rightarrow> user list" where
  "save_user now u us =
     map (\<lambda>v. if u_id v = u_id u then u\<lparr>u_updatedAt := now\<rparr> else v) us"

text \<open>\<^verbatim>\<open>Array.prototype.findIndex\<close>: the first index whose element satisfies the
  predicate, -1 when there is none.\<close>

fun findIndex :: "('a \<Rightarrow> bool) \<Rightarrow> 'a list \<Rightarrow> int" where
  "findIndex P [] = -1"
| "findIndex P (x # xs) =
     (if P x then 0 else (let i = findIndex P xs in if i < 0 then -1 else i + 1))"

text \<open>JavaScript truthiness of an optional string and of an optional number.\<close>

definition truthy_str :: "string option \<Rightarrow> bool" where
  "truthy_str v = (case v of None \<Rightarrow> False | Some s \<Rightarrow> s \<noteq> [])"

definition truthy_num :: "int option \<Rightarrow> bool" where
  "truthy_num v = (case v of None \<Rightarrow> False | Some n \<Rightarrow> n \<noteq> 0)"

section \<open>Session methods (models/Session.js)\<close>

text \<open>
  \<^verbatim>\<open>(sum / length).toFixed(1)\<close>, in tenths. The quotient is a binary double, so at a
  decimal midpoint (87 / 20 = 4.35) the digit chosen depends on how the quotient was
  rounded in binary; \<open>fp\<close> gives that direction and is a parameter. Away from a
  midpoint the nearest tenth is taken.
\<close>

definition toFixed1 :: "(int \<Rightarrow> int \<Rightarrow> bool) \<Rightarrow> int \<Rightarrow> int \<Rightarrow> int" where
  "toFixed1 fp sm n =
     (let q = (10 * sm) div n; r = (10 * sm) mod n
      in if 2 * r < n then q
         else if n < 2 * r then q + 1
         else if fp sm n then q + 1 else q)"

definition calculateAverageRating :: "(int \<Rightarrow> int \<Rightarrow> bool) \<Rightarrow> session \<Rightarrow> session" where
  "calculateAverageRating fp s =
     (if length (ratings s) = 0 then s\<lparr>averageRating := 0\<rparr>
      else (let sm = foldl (\<lambda>total rating. total + r_rating rating) 0 (ratings s)
            in s\<lparr>averageRating := toFixed1 fp sm (int (length (ratings s)))\<rparr>))"

definition recordParticipantJoin :: "date \<Rightarrow> oid \<Rightarrow> session \<Rightarrow> session" where
  "recordParticipantJoin now userId s =
     (let participantIndex = findIndex (\<lambda>p. p_user p = userId) (participants s)
      in if participantIndex \<ge> 0
         then s\<lparr>participants := (participants s)[nat participantIndex :=
                 (participants s ! nat participantIndex)
                   \<lparr>p_joinedAt := Some now, p_leaveAt := None\<rparr>]\<rparr>
         else s\<lparr>participants := participants s @
                 [\<lparr>p_user = userId, p_joinedAt = Some now, p_leaveAt = None,
                   p_duration = None, p_messages = 0, p_reactions = 0\<rparr>]\<rparr>)"

definition recordParticipantLeave :: "date \<Rightarrow> oid \<Rightarrow> session \<Rightarrow> session" where
  "recordParticipantLeave now userId s =
     (let participantIndex = findIndex (\<lambda>p. p_user p = userId) (participants s)
      in if participantIndex \<ge> 0 \<and> p_joinedAt (participants s ! nat participantIndex) \<noteq> None
         then (let p = participants s ! nat participantIndex;
                   joinTime = the (p_joinedAt p);
                   durationSeconds = (now - joinTime) div 1000;
                   existingDuration = (case p_duration p of None \<Rightarrow> 0 | Some d \<Rightarrow> d)
               in s\<lparr>participants := (participants s)[nat participantIndex :=
                      p\<lparr>p_leaveAt := Some now,
                        p_duration := Some (existingDuration + durationSeconds)\<rparr>]\<rparr>)
         else s)"

definition addMessage :: "date \<Rightarrow> oid \<Rightarrow> js_text \<Rightarrow> session \<Rightarrow> session" where
  "addMessage now userId msg s =
     (let s1 = s\<lparr>messages := messages s @
                  [\<lparr>m_user = userId, m_message = msg, m_timestamp = now\<rparr>]\<rparr>;
          participantIndex = findIndex (\<lambda>p. p_user p = userId) (participants s1)
      in if participantIndex \<ge> 0
         then s1\<lparr>participants := (participants s1)[nat participantIndex :=
                  (participants s1 ! nat participantIndex)
                    \<lparr>p_messages := p_messages (participants s1 ! nat participantIndex) + 1\<rparr>]\<rparr>
         else s1)"

definition addReaction :: "date \<Rightarrow> oid \<Rightarrow> string \<Rightarrow> session \<Rightarrow> session" where
  "addReaction now userId ty s =
     (let s1 = s\<lparr>reactions := reactions s @
                  [\<lparr>x_user = userId, x_type = ty, x_timestamp = now\<rparr>]\<rparr>;
          participantIndex = findIndex (\<lambda>p. p_user p = userId) (participants s1)
      in if participantIndex \<ge> 0
         then s1\<lparr>participants := (participants s1)[nat participantIndex :=
                  (participants s1 ! nat participantIndex)
                    \<lparr>p_reactions := p_reactions (participants s1 ! nat participantIndex) + 1\<rparr>]\<rparr>
         else s1)"

section \<open>RTC credential service (services/agoraService.js)\<close>

datatype rtc_role = PUBLISHER | SUBSCRIBER

record agora_service =
  appId :: string
  appCertificate :: string
  isConfigured :: bool

text \<open>The constructor reads the environment: an unset variable is \<open>None\<close>.\<close>

definition AgoraService :: "string option \<Rightarrow> string option \<Rightarrow> agora_service" where
  "AgoraService env_app_id env_app_certificate =
     \<lparr>appId = (if truthy_str env_app_id then the env_app_id else ''test-app-id''),
      appCertificate =
        (if truthy_str env_app_certificate then the env_app_certificate else ''test-certificate''),
      isConfigured = (truthy_str env_app_id \<and> truthy_str env_app_certificate)\<rparr>"

text \<open>\<^verbatim>\<open>RtcTokenBuilder.buildTokenWithUid\<close> belongs to the RTC provider's library and is
  the parameter \<open>build\<close>: application id, certificate, channel, uid, role and the expiry
  in seconds since the epoch.\<close>

type_synonym token_builder = "string \<Rightarrow> string \<Rightarrow> string \<Rightarrow> oid \<Rightarrow> rtc_role \<Rightarrow> int \<Rightarrow> string"

definition generateToken ::
  "token_builder \<Rightarrow> agora_service \<Rightarrow> date \<Rightarrow> string \<Rightarrow> oid \<Rightarrow> string \<Rightarrow> int \<Rightarrow> string" where
  "generateToken build svc now channel uid rl expireTime =
     (if \<not> isConfigured svc then ''placeholder-token-agora-not-configured''
      else (let currentTime = now div 1000;
                privilegeExpireTime = currentTime + expireTime;
                userRole = (if rl = ''publisher'' then PUBLISHER else SUBSCRIBER)
            in build (appId svc) (appCertificate svc) channel uid userRole privilegeExpireTime))"

record channel_details =
  cd_channelName :: string
  hostToken :: string
  cd_appId :: string

record viewer_details =
  vd_channelName :: string
  viewerToken :: string
  vd_appId :: string

definition createChannel ::
  "token_builder \<Rightarrow> agora_service \<Rightarrow> date \<Rightarrow> oid \<Rightarrow> oid \<Rightarrow> channel_details" where
  "createChannel build svc now sessionId trainerId =
     (let channelName = ''session_'' @ sessionId;
          tok = generateToken build svc now channelName trainerId ''publisher'' (24 * 3600)
      in \<lparr>cd_channelName = channelName, hostToken = tok, cd_appId = appId svc\<rparr>)"

definition generateViewerToken ::
  "token_builder \<Rightarrow> agora_service \<Rightarrow> date \<Rightarrow> oid \<Rightarrow> oid \<Rightarrow> viewer_details" where
  "generateViewerToken build svc now sessionId userId =
     (let channelName = ''session_'' @ sessionId;
          tok = generateToken build svc now channelName userId ''subscriber'' (3 * 3600)
      in \<lparr>vd_channelName = channelName, viewerToken = tok, vd_appId = appId svc\<rparr>)"

section \<open>Session controller (controllers/sessionController.js)\<close>

text \<open>
  Each handler takes the time of the request (\<^verbatim>\<open>new Date()\<close>), \<^verbatim>\<open>req.user\<close>, the
  request parameters and the store, and returns the response with the store as the
  handler leaves it. Only the status code and the message of a response are modelled.
\<close>

definition hasBooking :: "oid \<Rightarrow> user \<Rightarrow> bool" where
  "hasBooking sessionId u = list_ex (\<lambda>b. b_session b = sessionId) (bookedSessions u)"

text \<open>The fields of the body of \<^verbatim>\<open>updateSession\<close> that the session record has; the
  status is validated against the schema's enum when the session is saved.\<close>

record update_body =
  ub_scheduledAt :: "date option"
  ub_duration :: "int option"
  ub_tokenCost :: "int option"
  ub_maxParticipants :: "int option"
  ub_status :: "string option"

text \<open>The assignments \<^verbatim>\<open>if (scheduledAt) session.scheduledAt = scheduledAt\<close> to
  \<^verbatim>\<open>if (maxParticipants !== undefined) ...\<close>, in the order of the source. A
  \<^verbatim>\<open>scheduledAt\<close> in the body is a date string, so truthy whenever it is there.\<close>

definition applyUpdateFields :: "update_body \<Rightarrow> session \<Rightarrow> session" where
  "applyUpdateFields body session =
     (let s1 = (case ub_scheduledAt body of Some t \<Rightarrow> session\<lparr>scheduledAt := t\<rparr>
                | None \<Rightarrow> session);
          s2 = (if truthy_num (ub_duration body)
                then s1\<lparr>duration := the (ub_duration body)\<rparr> else s1);
          s3 = (if truthy_num (ub_tokenCost body)
                then s2\<lparr>tokenCost := the (ub_tokenCost body)\<rparr> else s2);
          s4 = (case ub_maxParticipants body of Some m \<Rightarrow> s3\<lparr>maxParticipants := m\<rparr>
                | None \<Rightarrow> s3)
      in s4)"

definition updateSession ::
  "date \<Rightarrow> req_user \<Rightarrow> oid \<Rightarrow> update_body \<Rightarrow> store \<Rightarrow> response \<times> store" where
  "updateSession now req i body st =
     (case findSessionById i (sessions st) of
        None \<Rightarrow> (respond 404 ''Session not found'', st)
      | Some session \<Rightarrow>
          if trainer session \<noteq> req_id req \<and> req_role req \<noteq> Admin
          then (respond 403 ''Not authorized to update this session'', st)
          else if status session = Live \<or> status session = Completed
          then (respond 400 (''Cannot update a '' @ string_of_status (status session) @ '' session''), st)
          else
            (let s4 = applyUpdateFields body session
             in if truthy_str (ub_status body) \<and> the (ub_status body) \<noteq> ''live''
                   \<and> the (ub_status body) \<noteq> ''completed''
                then (case status_of_string (the (ub_status body)) of
                        None \<Rightarrow> (server_error, st)
                      | Some v \<Rightarrow>
                          (respond 200 ''OK'',
                           st\<lparr>sessions := save_session now (s4\<lparr>status := v\<rparr>) (sessions st)\<rparr>))
                else (respond 200 ''OK'', st\<lparr>sessions := save_session now s4 (sessions st)\<rparr>)))"

text \<open>The body of \<^verbatim>\<open>createSession\<close>: the fields the session record has, and
  whether the fields it does not have (title, description, category, difficulty) pass
  the schema's validators.\<close>

record create_body =
  cb_scheduledAt :: "date option"
  cb_duration :: "int option"
  cb_tokenCost :: "int option"
  cb_maxParticipants :: "int option"
  cb_others_valid :: bool

text \<open>\<open>new_id\<close> is the \<^verbatim>\<open>_id\<close> that \<^verbatim>\<open>new Session\<close> generates; the collection
  refuses a second document with an \<^verbatim>\<open>_id\<close> it holds. No validator is installed
  on the route, so \<^verbatim>\<open>validationResult(req)\<close> is empty; the schema's
  \<^verbatim>\<open>required\<close> fails the save.\<close>

definition createSession ::
  "date \<Rightarrow> req_user \<Rightarrow> oid \<Rightarrow> create_body \<Rightarrow> store \<Rightarrow> response \<times> store" where
  "createSession now req new_id body st =
     (if \<not> cb_others_valid body \<or> cb_scheduledAt body = None \<or> cb_duration body = None
         \<or> findSessionById new_id (sessions st) \<noteq> None
      then (server_error, st)
      else (respond 201 ''Created'',
            st\<lparr>sessions := sessions st @
               [\<lparr>s_id = new_id, trainer = req_id req,
                 scheduledAt = the (cb_scheduledAt body), duration = the (cb_duration body),
                 tokenCost = (if truthy_num (cb_tokenCost body) then the (cb_tokenCost body)
                              else 1),
                 maxParticipants = (if truthy_num (cb_maxParticipants body)
                                    then the (cb_maxParticipants body) else 0),
                 participants = [], status = Scheduled, sd_channelName = None,
                 sd_resourceId = None, sd_sid = None, sd_startedAt = None, sd_endedAt = None,
                 ratings = [], averageRating = 0, messages = [], reactions = [],
                 updatedAt = now\<rparr>]\<rparr>))"

definition deleteSession :: "req_user \<Rightarrow> oid \<Rightarrow> store \<Rightarrow> response \<times> store" where
  "deleteSession req i st =
     (case findSessionById i (sessions st) of
        None \<Rightarrow> (respond 404 ''Session not found'', st)
      | Some session \<Rightarrow>
          if trainer session \<noteq> req_id req \<and> req_role req \<noteq> Admin
          then (respond 403 ''Not authorized to delete this session'', st)
          else if status session = Live \<or> status session = Completed
          then (respond 400 (''Cannot delete a '' @ string_of_status (status session) @ '' session''), st)
          else (respond 200 ''Session deleted successfully'',
                st\<lparr>sessions := filter (\<lambda>s. s_id s \<noteq> s_id session) (sessions st)\<rparr>))"

definition bookSession :: "date \<Rightarrow> req_user \<Rightarrow> oid \<Rightarrow> store \<Rightarrow> response \<times> store" where
  "bookSession now req i st =
     (case findSessionById i (sessions st) of
        None \<Rightarrow> (respond 404 ''Session not found'', st)
      | Some session \<Rightarrow>
          if scheduledAt session < now
          then (respond 400 ''Cannot book past sessions'', st)
          else if status session = Cancelled
          then (respond 400 ''This session has been cancelled'', st)
          else
            (case findUserById (req_id req) (users st) of
               None \<Rightarrow> (server_error, st)
             | Some user \<Rightarrow>
                 if hasBooking (s_id session) user
                 then (respond 400 ''Session already booked'', st)
                 else if maxParticipants session > 0
                         \<and> int (length (participants session)) \<ge> maxParticipants session
                 then (respond 400 ''Session is full'', st)
                 else if tokens user < tokenCost session
                 then (respond 400 ''Insufficient tokens'', st)
                 else
                   (let user' = user
                          \<lparr>tokens := tokens user - tokenCost session,
                           bookedSessions := bookedSessions user @
                             [\<lparr>b_session = s_id session, b_bookedAt = now\<rparr>]\<rparr>;
                        session' = session
                          \<lparr>participants := participants session @
                             [\<lparr>p_user = u_id user, p_joinedAt = None, p_leaveAt = None,
                               p_duration = None, p_messages = 0, p_reactions = 0\<rparr>]\<rparr>
                    in (respond 200 ''Session booked successfully'',
                        st\<lparr>users := save_user now user' (users st),
                           sessions := save_session now session' (sessions st)\<rparr>))))"

text \<open>The trainer's aggregate rating, rescanned over all sessions of the trainer.\<close>

definition updateTrainerRating ::
  "(int \<Rightarrow> int \<Rightarrow> bool) \<Rightarrow> date \<Rightarrow> oid \<Rightarrow> store \<Rightarrow> store" where
  "updateTrainerRating fp now trainerId st =
     (case findUserById trainerId (users st) of
        None \<Rightarrow> st
      | Some tr \<Rightarrow>
          (let trainerSessions = filter (\<lambda>s. trainer s = u_id tr) (sessions st);
               totalRatings = foldl (\<lambda>n s. n + length (ratings s)) 0 trainerSessions;
               ratingSum = foldl (\<lambda>n s. n + foldl (\<lambda>sm r. sm + r_rating r) 0 (ratings s))
                             0 trainerSessions
           in if totalRatings > 0
              then st\<lparr>users := save_user now
                        (tr\<lparr>tp_rating := toFixed1 fp ratingSum (int totalRatings),
                            tp_totalRatings := totalRatings\<rparr>) (users st)\<rparr>
              else st))"

text \<open>The end of \<^verbatim>\<open>rateSession\<close>, shared by both branches: recompute the average,
  save the session, update the trainer.\<close>

definition finishRating ::
  "(int \<Rightarrow> int \<Rightarrow> bool) \<Rightarrow> date \<Rightarrow> session \<Rightarrow> store \<Rightarrow> response \<times> store" where
  "finishRating fp now session st =
     (let session' = calculateAverageRating fp session;
          st' = st\<lparr>sessions := save_session now session' (sessions st)\<rparr>
      in (respond 200 ''Session rated successfully'',
          updateTrainerRating fp now (trainer session') st'))"

definition rateSession ::
  "(int \<Rightarrow> int \<Rightarrow> bool) \<Rightarrow> date \<Rightarrow> req_user \<Rightarrow> oid \<Rightarrow> int option \<Rightarrow> string option
     \<Rightarrow> store \<Rightarrow> response \<times> store" where
  "rateSession fp now req i rating feedback st =
     (if \<not> truthy_num rating \<or> the rating < 1 \<or> the rating > 5
      then (respond 400 ''Rating must be between 1 and 5'', st)
      else
        (case findSessionById i (sessions st) of
           None \<Rightarrow> (respond 404 ''Session not found'', st)
         | Some session \<Rightarrow>
             if status session \<noteq> Completed
             then (respond 400 ''Can only rate completed sessions'', st)
             else if \<not> list_ex (\<lambda>p. p_user p = req_id req) (participants session)
             then (respond 403 ''You must participate in the session to rate it'', st)
             else if list_ex (\<lambda>r. r_user r = req_id req) (ratings session)
             then finishRating fp now
                    (session\<lparr>ratings := map (\<lambda>r. if r_user r = req_id req
                         then r\<lparr>r_rating := the rating,
                                r_feedback := (if truthy_str feedback then feedback
                                               else r_feedback r),
                                r_createdAt := now\<rparr>
                         else r) (ratings session)\<rparr>) st
             else
               (let session' = session\<lparr>ratings := ratings session @
                      [\<lparr>r_user = req_id req, r_rating = the rating, r_feedback = feedback,
                        r_createdAt = now\<rparr>]\<rparr>
                in case findUserById (req_id req) (users st) of
                     None \<Rightarrow> (server_error, st)
                   | Some user \<Rightarrow>
                       if \<not> list_ex (\<lambda>c. c_session c = s_id session) (completedSessions user)
                       then finishRating fp now session'
                              (st\<lparr>users := save_user now
                                   (user\<lparr>completedSessions := completedSessions user @
                                      [\<lparr>c_session = s_id session, c_completedAt = now,
                                        c_rating = the rating, c_feedback = feedback\<rparr>]\<rparr>)
                                   (users st)\<rparr>)
                       else finishRating fp now session' st)))"

text \<open>The refund loop of \<^verbatim>\<open>updateSessionStatus\<close>: \<open>found\<close> is the result of
  \<^verbatim>\<open>User.find({'bookedSessions.session': session._id})\<close>; each document found is
  credited, loses its bookings of the session, and is saved.\<close>

definition refundUser :: "int \<Rightarrow> oid \<Rightarrow> user \<Rightarrow> user" where
  "refundUser cost sessionId u =
     u\<lparr>tokens := tokens u + cost,
       bookedSessions := filter (\<lambda>b. b_session b \<noteq> sessionId) (bookedSessions u)\<rparr>"

fun refundLoop :: "date \<Rightarrow> int \<Rightarrow> oid \<Rightarrow> user list \<Rightarrow> user list \<Rightarrow> user list" where
  "refundLoop now cost sessionId [] us = us"
| "refundLoop now cost sessionId (u # found) us =
     refundLoop now cost sessionId found (save_user now (refundUser cost sessionId u) us)"

definition updateSessionStatus ::
  "date \<Rightarrow> req_user \<Rightarrow> oid \<Rightarrow> string \<Rightarrow> store \<Rightarrow> response \<times> store" where
  "updateSessionStatus now req i new_status st =
     (if new_status \<noteq> ''scheduled'' \<and> new_status \<noteq> ''cancelled''
      then (respond 400 ''Invalid status'', st)
      else
        (case findSessionById i (sessions st) of
           None \<Rightarrow> (respond 404 ''Session not found'', st)
         | Some session \<Rightarrow>
             if trainer session \<noteq> req_id req \<and> req_role req \<noteq> Admin
             then (respond 403 ''Not authorized to update this session'', st)
             else if status session = Live \<or> status session = Completed
             then (respond 400 (''Cannot change status of a ''
                       @ string_of_status (status session) @ '' session''), st)
             else
               (let session' = session
                      \<lparr>status := (if new_status = ''cancelled'' then Cancelled else Scheduled)\<rparr>;
                    st' = st\<lparr>sessions := save_session now session' (sessions st)\<rparr>
                in if new_status = ''cancelled''
                   then (let found = filter (hasBooking (s_id session')) (users st')
                         in (respond 200 ''Session cancelled successfully'',
                             st'\<lparr>users := refundLoop now (tokenCost session') (s_id session')
                                            found (users st')\<rparr>))
                   else (respond 200 ''Session updated successfully'', st'))))"

text \<open>The participant counts of \<^verbatim>\<open>getSessionAnalytics\<close>. In
  \<^verbatim>\<open>p.duration >= session.duration * 0.8\<close> both sides are compared as the numbers
  they are; multiplied by 10 the comparison is between integers.\<close>

record participant_counts =
  registered :: nat
  attended :: nat
  completed :: nat

definition participantAnalytics :: "session \<Rightarrow> participant_counts" where
  "participantAnalytics s =
     \<lparr>registered = length (participants s),
      attended = length (filter (\<lambda>p. p_joinedAt p \<noteq> None) (participants s)),
      completed = length (filter
         (\<lambda>p. p_joinedAt p \<noteq> None \<and> truthy_num (p_duration p)
               \<and> 10 * the (p_duration p) \<ge> duration s * 8) (participants s))\<rparr>"

text \<open>The session is loaded with \<^verbatim>\<open>populate('trainer', ...)\<close>: without a user
  document for the trainer the populated field is null and reading
  \<^verbatim>\<open>session.trainer._id\<close> throws.\<close>

definition getSessionAnalytics ::
  "req_user \<Rightarrow> oid \<Rightarrow> store \<Rightarrow> response \<times> participant_counts option" where
  "getSessionAnalytics req i st =
     (case findSessionById i (sessions st) of
        None \<Rightarrow> (respond 404 ''Session not found'', None)
      | Some session \<Rightarrow>
          (case findUserById (trainer session) (users st) of
             None \<Rightarrow> (server_error, None)
           | Some tr \<Rightarrow>
               if u_id tr \<noteq> req_id req \<and> req_role req \<noteq> Admin
               then (respond 403 ''Not authorized to view analytics for this session'', None)
               else (respond 200 ''OK'', Some (participantAnalytics session))))"

section \<open>Stream controller (controllers/streamController.js)\<close>

text \<open>\<^verbatim>\<open>agoraService.updateSessionStreamStatus\<close>: a \<^verbatim>\<open>findByIdAndUpdate\<close> with
  \<^verbatim>\<open>$set\<close>, which runs no \<^verbatim>\<open>pre('save')\<close> hook.\<close>

definition updateSessionStreamStatus ::
  "date \<Rightarrow> oid \<Rightarrow> status \<Rightarrow> string option \<Rightarrow> session list \<Rightarrow> session list" where
  "updateSessionStreamStatus now sessionId new_status channelName ss =
     map (\<lambda>s. if s_id s = sessionId
               then (if new_status = Live
                     then s\<lparr>status := new_status, sd_startedAt := Some now,
                            sd_channelName := channelName, sd_resourceId := None\<rparr>
                     else if new_status = Completed
                     then s\<lparr>status := new_status, sd_endedAt := Some now\<rparr>
                     else s\<lparr>status := new_status\<rparr>)
               else s) ss"

text \<open>\<^verbatim>\<open>startStream\<close> loads the session with \<^verbatim>\<open>populate('trainer', ...)\<close> as
  well and reads \<^verbatim>\<open>session.trainer._id\<close>.\<close>

definition startStream ::
  "token_builder \<Rightarrow> agora_service \<Rightarrow> date \<Rightarrow> req_user \<Rightarrow> oid \<Rightarrow> store \<Rightarrow> response \<times> store" where
  "startStream build svc now req sessionId st =
     (case findSessionById sessionId (sessions st) of
        None \<Rightarrow> (respond 404 ''Session not found'', st)
      | Some session \<Rightarrow>
          if findUserById (trainer session) (users st) = None
          then (server_error, st)
          else if u_id (the (findUserById (trainer session) (users st))) \<noteq> req_id req
          then (respond 403 ''Only the assigned trainer can start this stream'', st)
          else if status session = Live
          then (respond 400 ''Session is already live'', st)
          else if status session = Cancelled \<or> status session = Completed
          then (respond 400 (''Cannot start a '' @ string_of_status (status session) @ '' session''), st)
          else
            (let details = createChannel build svc now sessionId (req_id req)
             in (respond 200 ''Stream started successfully'',
                 st\<lparr>sessions := updateSessionStreamStatus now sessionId Live
                                   (Some (cd_channelName details)) (sessions st)\<rparr>)))"

text \<open>The service object of services/agoraService.js has no \<^verbatim>\<open>stopRecording\<close>
  method, so the call made when a recording is registered throws.\<close>

definition endStream :: "date \<Rightarrow> req_user \<Rightarrow> oid \<Rightarrow> store \<Rightarrow> response \<times> store" where
  "endStream now req sessionId st =
     (case findSessionById sessionId (sessions st) of
        None \<Rightarrow> (respond 404 ''Session not found'', st)
      | Some session \<Rightarrow>
          if trainer session \<noteq> req_id req
          then (respond 403 ''Only the assigned trainer can end this stream'', st)
          else if status session \<noteq> Live
          then (respond 400 ''Session is not currently live'', st)
          else if truthy_str (sd_resourceId session) \<and> truthy_str (sd_sid session)
          then (server_error, st)
          else (respond 200 ''Stream ended successfully'',
                st\<lparr>sessions := updateSessionStreamStatus now sessionId Completed None
                                  (sessions st)\<rparr>))"

text \<open>The module assigns \<^verbatim>\<open>exports.joinStream\<close> twice. The second assignment
  (\<^verbatim>\<open>// Record user joining a session\<close>) is the handler the router gets.\<close>

definition joinStream :: "date \<Rightarrow> req_user \<Rightarrow> oid \<Rightarrow> store \<Rightarrow> response \<times> store" where
  "joinStream now req sessionId st =
     (case findSessionById sessionId (sessions st) of
        None \<Rightarrow> (respond 404 ''Session not found'', st)
      | Some session \<Rightarrow>
          if status session \<noteq> Live
          then (respond 400 ''Session is not currently live'', st)
          else (respond 200 ''Joined stream successfully'',
                st\<lparr>sessions := save_session now
                       (recordParticipantJoin now (req_id req) session) (sessions st)\<rparr>))"

text \<open>The first assignment (\<^verbatim>\<open>// Join a streaming session\<close>), overwritten by the
  second.\<close>

definition joinStream_first :: "date \<Rightarrow> req_user \<Rightarrow> oid \<Rightarrow> store \<Rightarrow> response \<times> store" where
  "joinStream_first now req sessionId st =
     (case findSessionById sessionId (sessions st) of
        None \<Rightarrow> (respond 404 ''Session not found'', st)
      | Some session \<Rightarrow>
          if status session \<noteq> Live
          then (respond 400 ''Session is not currently live'', st)
          else
            (let isTrainer = (trainer session = req_id req)
             in if \<not> isTrainer \<and> findUserById (req_id req) (users st) = None
                then (server_error, st)
                else if \<not> isTrainer
                        \<and> \<not> hasBooking sessionId (the (findUserById (req_id req) (users st)))
                then (respond 403 ''You must book this session to join'', st)
                else if \<not> isTrainer
                        \<and> \<not> list_ex (\<lambda>p. p_user p = req_id req) (participants session)
                then (respond 200 ''Joined stream successfully'',
                      st\<lparr>sessions := save_session now
                            (session\<lparr>participants := participants session @
                               [\<lparr>p_user = req_id req, p_joinedAt = Some now, p_leaveAt = None,
                                 p_duration = None, p_messages = 0, p_reactions = 0\<rparr>]\<rparr>)
                            (sessions st)\<rparr>)
                else (respond 200 ''Joined stream successfully'', st)))"

text \<open>\<^verbatim>\<open>exports.leaveStream\<close> is assigned twice as well; this is the second
  assignment (\<^verbatim>\<open>// Record user leaving a session\<close>).\<close>

definition leaveStream :: "date \<Rightarrow> req_user \<Rightarrow> oid \<Rightarrow> store \<Rightarrow> response \<times> store" where
  "leaveStream now req sessionId st =
     (case findSessionById sessionId (sessions st) of
        None \<Rightarrow> (respond 404 ''Session not found'', st)
      | Some session \<Rightarrow>
          (respond 200 ''Left stream successfully'',
           st\<lparr>sessions := save_session now
                  (recordParticipantLeave now (req_id req) session) (sessions st)\<rparr>))"

text \<open>\<^verbatim>\<open>String.prototype.trim\<close> removes the white space and line terminator code
  units of ECMAScript; a text is empty after it when it has no other code unit.\<close>

definition js_whitespace :: "nat \<Rightarrow> bool" where
  "js_whitespace c =
     (c \<in> set [9, 10, 11, 12, 13, 32, 160, 5760, 8232, 8233, 8239, 8287, 12288, 65279]
      \<or> (8192 \<le> c \<and> c \<le> 8202))"

definition sendMessage ::
  "date \<Rightarrow> req_user \<Rightarrow> oid \<Rightarrow> js_text option \<Rightarrow> store \<Rightarrow> response \<times> store" where
  "sendMessage now req sessionId msg st =
     (if msg = None \<or> msg = Some [] \<or> list_all js_whitespace (the msg)
      then (respond 400 ''Message content is required'', st)
      else
        (case findSessionById sessionId (sessions st) of
           None \<Rightarrow> (respond 404 ''Session not found'', st)
         | Some session \<Rightarrow>
             if status session \<noteq> Live
             then (respond 400 ''Session is not currently live'', st)
             else (respond 201 ''Created'',
                   st\<lparr>sessions := save_session now
                          (addMessage now (req_id req) (the msg) session) (sessions st)\<rparr>)))"

definition sendReaction ::
  "date \<Rightarrow> req_user \<Rightarrow> oid \<Rightarrow> string option \<Rightarrow> store \<Rightarrow> response \<times> store" where
  "sendReaction now req sessionId ty st =
     (if \<not> truthy_str ty
         \<or> the ty \<notin> set [''thumbsUp'', ''heart'', ''star'', ''clap'', ''fire'']
      then (respond 400 ''Valid reaction type is required'', st)
      else
        (case findSessionById sessionId (sessions st) of
           None \<Rightarrow> (respond 404 ''Session not found'', st)
         | Some session \<Rightarrow>
             if status session \<noteq> Live
             then (respond 400 ''Session is not currently live'', st)
             else (respond 201 ''Created'',
                   st\<lparr>sessions := save_session now
                          (addReaction now (req_id req) (the ty) session) (sessions st)\<rparr>)))"

section \<open>User and package controllers\<close>

definition updateTokens ::
  "date \<Rightarrow> oid \<Rightarrow> int option \<Rightarrow> string option \<Rightarrow> store \<Rightarrow> response \<times> store" where
  "updateTokens now i amount operation st =
     (if \<not> truthy_num amount \<or> the amount < 0
      then (respond 400 ''Invalid token amount'', st)
      else
        (case findUserById i (users st) of
           None \<Rightarrow> (respond 404 ''User not found'', st)
         | Some user \<Rightarrow>
             if operation = Some ''add''
             then (respond 200 ''Tokens updated successfully'',
                   st\<lparr>users := save_user now (user\<lparr>tokens := tokens user + the amount\<rparr>)
                                  (users st)\<rparr>)
             else if operation = Some ''subtract''
             then (if tokens user < the amount
                   then (respond 400 ''User does not have enough tokens'', st)
                   else (respond 200 ''Tokens updated successfully'',
                         st\<lparr>users := save_user now (user\<lparr>tokens := tokens user - the amount\<rparr>)
                                        (users st)\<rparr>))
             else (respond 200 ''Tokens updated successfully'',
                   st\<lparr>users := save_user now (user\<lparr>tokens := the amount\<rparr>) (users st)\<rparr>)))"

text \<open>The transaction is saved before the user: its schema's
  \<^verbatim>\<open>enum: ['credit_card', 'paypal', 'stripe', 'other']\<close> on the payment method fails the
  save, and then the user is not saved either.\<close>

definition purchasePackage ::
  "date \<Rightarrow> req_user \<Rightarrow> oid \<Rightarrow> string option \<Rightarrow> store \<Rightarrow> response \<times> store" where
  "purchasePackage now req i paymentMethod st =
     (if \<not> truthy_str paymentMethod
      then (respond 400 ''Payment method is required'', st)
      else
        (case findPackageById i (packages st) of
           None \<Rightarrow> (respond 404 ''Package not found'', st)
         | Some pkg \<Rightarrow>
             if \<not> active pkg
             then (respond 400 ''This package is not available for purchase'', st)
             else if isPromotion pkg \<and> validUntil pkg \<noteq> None \<and> the (validUntil pkg) < now
             then (respond 400 ''This promotion has expired'', st)
             else
               (let tx = \<lparr>t_user = req_id req, t_package = pk_id pkg,
                          t_tokenAmount = tokenAmount pkg, t_amount = price pkg,
                          t_paymentMethod = the paymentMethod, t_status = TxCompleted\<rparr>
                in case findUserById (req_id req) (users st) of
                     None \<Rightarrow> (server_error, st)
                   | Some user \<Rightarrow>
                       if the paymentMethod \<notin> set [''credit_card'', ''paypal'', ''stripe'', ''other'']
                       then (server_error, st)
                       else (respond 200 ''Purchase successful'',
                             st\<lparr>transactions := transactions st @ [tx],
                                users := save_user now
                                  (user\<lparr>tokens := tokens user + tokenAmount pkg\<rparr>) (users st)\<rparr>))))"

section \<open>The API as a step function\<close>

datatype request =
    UpdateSession req_user oid update_body
  | UpdateSessionStatus req_user oid string
  | BookSession req_user oid
  | RateSession req_user oid "int option" "string option"
  | StartStream req_user oid
  | EndStream req_user oid
  | JoinStream req_user oid
  | LeaveStream req_user oid
  | UpdateTokens oid "int option" "string option"
  | PurchasePackage req_user oid "string option"

text \<open>The requests of booking, rating, streaming and the token ledger. The role checks
  of the routes (\<^verbatim>\<open>isTrainer\<close>, \<^verbatim>\<open>isOwnerOrAdmin\<close>) run before a handler and are
  not part of it. The environment of a run: the binary rounding direction of \<open>toFixed1\<close>, the RTC
  token builder and the configured service.\<close>

record env =
  e_fp :: "int \<Rightarrow> int \<Rightarrow> bool"
  e_build :: token_builder
  e_svc :: agora_service

fun handle :: "env \<Rightarrow> date \<Rightarrow> request \<Rightarrow> store \<Rightarrow> response \<times> store" where
  "handle e now (UpdateSession req i body) st = updateSession now req i body st"
| "handle e now (UpdateSessionStatus req i s) st = updateSessionStatus now req i s st"
| "handle e now (BookSession req i) st = bookSession now req i st"
| "handle e now (RateSession req i r f) st = rateSession (e_fp e) now req i r f st"
| "handle e now (StartStream req i) st = startStream (e_build e) (e_svc e) now req i st"
| "handle e now (EndStream req i) st = endStream now req i st"
| "handle e now (JoinStream req i) st = joinStream now req i st"
| "handle e now (LeaveStream req i) st = leaveStream now req i st"
| "handle e now (UpdateTokens i a opn) st = updateTokens now i a opn st"
| "handle e now (PurchasePackage req i pm) st = purchasePackage now req i pm st"

text \<open>A sequence of requests, each with its time, handled one after the other.\<close>

fun run :: "env \<Rightarrow> (date \<times> request) list \<Rightarrow> store \<Rightarrow> store" where
  "run e [] st = st"
| "run e ((now, r) # rs) st = run e rs (snd (handle e now r st))"

text \<open>The handlers that write a session and are not among the requests above: chat,
  and creating and deleting a session.\<close>

datatype api_request =
    Handled request
  | SendMessage req_user oid "js_text option"
  | SendReaction req_user oid "string option"
  | CreateSession req_user oid create_body
  | DeleteSession req_user oid

fun handle_api :: "env \<Rightarrow> date \<Rightarrow> api_request \<Rightarrow> store \<Rightarrow> response \<times> store" where
  "handle_api e now (Handled r) st = handle e now r st"
| "handle_api e now (SendMessage req i msg) st = sendMessage now req i msg st"
| "handle_api e now (SendReaction req i ty) st = sendReaction now req i ty st"
| "handle_api e now (CreateSession req i body) st = createSession now req i body st"
| "handle_api e now (DeleteSession req i) st = deleteSession req i st"

fun run_api :: "env \<Rightarrow> (date \<times> api_request) list \<Rightarrow> store \<Rightarrow> store" where
  "run_api e [] st = st"
| "run_api e ((now, r) # rs) st = run_api e rs (snd (handle_api e now r st))"

section \<open>Observations and example data\<close>

text \<open>The participant record of a user that \<^verbatim>\<open>findIndex\<close> selects: the first one.\<close>

definition participantOf :: "oid \<Rightarrow> session \<Rightarrow> participant option" where
  "participantOf u s = find (\<lambda>p. p_user p = u) (participants s)"

definition mk_participant ::
  "oid \<Rightarrow> date option \<Rightarrow> date option \<Rightarrow> int option \<Rightarrow> participant" where
  "mk_participant u j l d =
     \<lparr>p_user = u, p_joinedAt = j, p_leaveAt = l, p_duration = d,
      p_messages = 0, p_reactions = 0\<rparr>"

text \<open>A one-hour session costing 2 tokens, scheduled at time 100000, without capacity limit.\<close>

definition mk_session :: "oid \<Rightarrow> oid \<Rightarrow> status \<Rightarrow> participant list \<Rightarrow> session" where
  "mk_session i tr stat ps =
     \<lparr>s_id = i, trainer = tr, scheduledAt = 100000, duration = 60, tokenCost = 2,
      maxParticipants = 0, participants = ps, status = stat, sd_channelName = None,
      sd_resourceId = None, sd_sid = None, sd_startedAt = None, sd_endedAt = None,
      ratings = [], averageRating = 0, messages = [], reactions = [], updatedAt = 0\<rparr>"

definition mk_user :: "oid \<Rightarrow> role \<Rightarrow> int \<Rightarrow> oid list \<Rightarrow> user" where
  "mk_user i r n booked =
     \<lparr>u_id = i, u_role = r, tokens = n,
      bookedSessions = map (\<lambda>s. \<lparr>b_session = s, b_bookedAt = 0\<rparr>) booked,
      completedSessions = [], tp_rating = 0, tp_totalRatings = 0, u_updatedAt = 0\<rparr>"

definition mk_package :: "oid \<Rightarrow> int \<Rightarrow> package" where
  "mk_package i n =
     \<lparr>pk_id = i, tokenAmount = n, price = 5, active = True, isPromotion = False,
      validUntil = None\<rparr>"

definition mk_store :: "session list \<Rightarrow> user list \<Rightarrow> store" where
  "mk_store ss us = \<lparr>sessions = ss, users = us, packages = [], transactions = []\<rparr>"

text \<open>The count of the analytics as the specification words it: joined, and a tracked
  duration of at least 80% of the scheduled duration, both in seconds.\<close>

definition completedSameUnit :: "session \<Rightarrow> nat" where
  "completedSameUnit s =
     length (filter (\<lambda>p. p_joinedAt p \<noteq> None \<and> p_duration p \<noteq> None
                          \<and> 10 * the (p_duration p) \<ge> (duration s * 60) * 8) (participants s))"

text \<open>Every stored balance is at least 0.\<close>

definition nonneg_balances :: "store \<Rightarrow> bool" where
  "nonneg_balances st = list_all (\<lambda>u. 0 \<le> tokens u) (users st)"

text \<open>An environment for the examples: midpoints round up, the channel name stands
  for the built token, the service is not configured.\<close>

definition ex_env :: env where
  "ex_env = \<lparr>e_fp = (\<lambda>sm n. True), e_build = (\<lambda>a c ch u r e. ch),
             e_svc = AgoraService None None\<rparr>"

text \<open>The stored status of a session, if the session exists.\<close>

definition statusOf :: "oid \<Rightarrow> store \<Rightarrow> status option" where
  "statusOf j st = map_option status (findSessionById j (sessions st))"

text \<open>The status changes each kind of request can make.\<close>

fun request_edges :: "request \<Rightarrow> (status \<times> status) list" where
  "request_edges (UpdateSession req i body) = [(Scheduled, Cancelled), (Cancelled, Scheduled)]"
| "request_edges (UpdateSessionStatus req i s) = [(Scheduled, Cancelled), (Cancelled, Scheduled)]"
| "request_edges (StartStream req i) = [(Scheduled, Live)]"
| "request_edges (EndStream req i) = [(Live, Completed)]"
| "request_edges r = []"

text \<open>The statuses that sequences of such changes reach.\<close>

fun reachable :: "status \<Rightarrow> status list" where
  "reachable Scheduled = [Scheduled, Live, Completed, Cancelled]"
| "reachable Cancelled = [Scheduled, Live, Completed, Cancelled]"
| "reachable Live = [Live, Completed]"
| "reachable Completed = [Completed]"

text \<open>What a request that is not a rating may do to a stored session: identity and
  ratings stay, the status stays or moves along one of the given changes.\<close>

definition session_step :: "(status \<times> status) list \<Rightarrow> session \<Rightarrow> session \<Rightarrow> bool" where
  "session_step edges s s' =
     (s_id s' = s_id s \<and> ratings s' = ratings s \<and> averageRating s' = averageRating s
      \<and> (status s' = status s \<or> (status s, status s') \<in> set edges))"

text \<open>The ratings list as \<^verbatim>\<open>rateSession\<close> leaves it: the entries of the user
  overwritten in place when there is one, a new entry appended otherwise.\<close>

definition ratedEntries ::
  "date \<Rightarrow> oid \<Rightarrow> int \<Rightarrow> string option \<Rightarrow> rating_entry list \<Rightarrow> rating_entry list" where
  "ratedEntries now u r fb rs =
     (if list_ex (\<lambda>e. r_user e = u) rs
      then map (\<lambda>e. if r_user e = u
                     then e\<lparr>r_rating := r,
                            r_feedback := (if truthy_str fb then fb else r_feedback e),
                            r_createdAt := now\<rparr>
                     else e) rs
      else rs @ [\<lparr>r_user = u, r_rating = r, r_feedback = fb, r_createdAt = now\<rparr>])"

text \<open>The status changes each kind of request of the whole API can make.\<close>

fun api_edges :: "api_request \<Rightarrow> (status \<times> status) list" where
  "api_edges (Handled r) = request_edges r"
| "api_edges r = []"

section \<open>Properties\<close>

subsection \<open>Finding and updating the first match\<close>

lemma findIndex_lower: "findIndex P xs \<ge> -1"
  by (induction xs) (auto simp: Let_def)

lemma findIndex_neg_iff: "findIndex P xs < 0 \<longleftrightarrow> find P xs = None"
  by (induction xs) (auto simp: Let_def)

lemma findIndex_find:
  "find P xs = Some x \<Longrightarrow>
     0 \<le> findIndex P xs \<and> nat (findIndex P xs) < length xs \<and> xs ! nat (findIndex P xs) = x"
proof (induction xs)
  case Nil
  then show ?case by simp
next
  case (Cons a xs)
  show ?case
  proof (cases "P a")
    case True
    with Cons.prems show ?thesis by simp
  next
    case False
    with Cons.prems have fx: "find P xs = Some x" by simp
    from Cons.IH [OF fx] False show ?thesis
      by (simp add: Let_def nat_add_distrib)
  qed
qed

lemma find_update_first:
  assumes "find P xs = Some x" and "P (f x)"
  shows "find P (xs[nat (findIndex P xs) := f x]) = Some (f x)"
  using assms
proof (induction xs)
  case Nil
  then show ?case by simp
next
  case (Cons a xs)
  show ?case
  proof (cases "P a")
    case True
    with Cons.prems show ?thesis by simp
  next
    case False
    with Cons.prems have fx: "find P xs = Some x" by simp
    from findIndex_find [OF fx] have "0 \<le> findIndex P xs" by simp
    with Cons.IH [OF fx Cons.prems(2)] False show ?thesis
      by (simp add: Let_def nat_add_distrib)
  qed
qed

lemma find_append_new: "find P xs = None \<Longrightarrow> P y \<Longrightarrow> find P (xs @ [y]) = Some y"
  by (induction xs) (auto split: if_splits)

subsection \<open>Join and leave tracking\<close>

lemma leave_effect:
  assumes "participantOf u s = Some p" and "p_joinedAt p = Some j"
  shows "participantOf u (recordParticipantLeave now u s) =
           Some (p\<lparr>p_leaveAt := Some now,
                   p_duration := Some ((case p_duration p of None \<Rightarrow> 0 | Some d \<Rightarrow> d)
                                        + (now - j) div 1000)\<rparr>)"
proof -
  let ?P = "\<lambda>p. p_user p = u"
  from assms(1) have f: "find ?P (participants s) = Some p" by (simp add: participantOf_def)
  from findIndex_find [OF f] have i: "0 \<le> findIndex ?P (participants s)"
    and x: "participants s ! nat (findIndex ?P (participants s)) = p" by simp_all
  from f have pu: "p_user p = u" by (auto dest: find_Some_iff [THEN iffD1])
  show ?thesis
    using i x assms(2) pu
      find_update_first [OF f, of "\<lambda>p. p\<lparr>p_leaveAt := Some now,
                   p_duration := Some ((case p_duration p of None \<Rightarrow> 0 | Some d \<Rightarrow> d)
                                        + (now - j) div 1000)\<rparr>"]
    by (simp add: recordParticipantLeave_def participantOf_def Let_def)
qed

lemma leave_noop:
  assumes "\<not> (\<exists>p. participantOf u s = Some p \<and> p_joinedAt p \<noteq> None)"
  shows "recordParticipantLeave now u s = s"
proof (cases "participantOf u s")
  case None
  then have "findIndex (\<lambda>p. p_user p = u) (participants s) < 0"
    by (simp add: findIndex_neg_iff participantOf_def)
  then show ?thesis by (simp add: recordParticipantLeave_def Let_def)
next
  case (Some p)
  then have f: "find (\<lambda>p. p_user p = u) (participants s) = Some p" by (simp add: participantOf_def)
  from assms Some have "p_joinedAt p = None" by simp
  with findIndex_find [OF f] show ?thesis by (simp add: recordParticipantLeave_def Let_def)
qed

lemma join_effect:
  "participantOf u (recordParticipantJoin now u s) =
     Some (case participantOf u s of
             Some p \<Rightarrow> p\<lparr>p_joinedAt := Some now, p_leaveAt := None\<rparr>
           | None \<Rightarrow> \<lparr>p_user = u, p_joinedAt = Some now, p_leaveAt = None,
                      p_duration = None, p_messages = 0, p_reactions = 0\<rparr>)"
proof (cases "participantOf u s")
  case None
  then have n: "find (\<lambda>p. p_user p = u) (participants s) = None" by (simp add: participantOf_def)
  then have "findIndex (\<lambda>p. p_user p = u) (participants s) < 0"
    by (simp add: findIndex_neg_iff)
  with None n show ?thesis
    by (simp add: recordParticipantJoin_def Let_def participantOf_def find_append_new)
next
  case (Some p)
  then have f: "find (\<lambda>p. p_user p = u) (participants s) = Some p" by (simp add: participantOf_def)
  from f have pu: "p_user p = u" by (auto dest: find_Some_iff [THEN iffD1])
  from findIndex_find [OF f] have i: "0 \<le> findIndex (\<lambda>p. p_user p = u) (participants s)"
    and x: "participants s ! nat (findIndex (\<lambda>p. p_user p = u) (participants s)) = p" by simp_all
  show ?thesis
    using i x pu Some
      find_update_first [OF f, of "\<lambda>p. p\<lparr>p_joinedAt := Some now, p_leaveAt := None\<rparr>"]
    by (simp add: recordParticipantJoin_def participantOf_def Let_def)
qed

text \<open>
  Claim C8. A leave of a participant who has a join timestamp records the leave
  timestamp and adds the whole seconds elapsed since that join,
  \<open>(now - joinedAt) div 1000\<close>, to the participant's running duration. After
  join, leave, join, leave at the times \<open>t1\<close>, \<open>t2\<close>, \<open>t3\<close>, \<open>t4\<close> the
  duration is what it was before (0 for a new participant) plus the seconds of both
  intervals, and the leave timestamp is \<open>t4\<close>.
\<close>

theorem C8_leave_accumulates:
  "(participantOf u s = Some p \<and> p_joinedAt p = Some j \<longrightarrow>
      participantOf u (recordParticipantLeave now u s) =
        Some (p\<lparr>p_leaveAt := Some now,
                p_duration := Some ((case p_duration p of None \<Rightarrow> 0 | Some d \<Rightarrow> d)
                                     + (now - j) div 1000)\<rparr>))
   \<and> (\<exists>q. participantOf u
            (recordParticipantLeave t4 u (recordParticipantJoin t3 u
              (recordParticipantLeave t2 u (recordParticipantJoin t1 u s)))) = Some q
          \<and> p_leaveAt q = Some t4
          \<and> p_duration q =
              Some ((case participantOf u s of None \<Rightarrow> 0
                     | Some p0 \<Rightarrow> (case p_duration p0 of None \<Rightarrow> 0 | Some d \<Rightarrow> d))
                    + (t2 - t1) div 1000 + (t4 - t3) div 1000))"
proof (intro conjI impI)
  assume "participantOf u s = Some p \<and> p_joinedAt p = Some j"
  then show "participantOf u (recordParticipantLeave now u s) =
        Some (p\<lparr>p_leaveAt := Some now,
                p_duration := Some ((case p_duration p of None \<Rightarrow> 0 | Some d \<Rightarrow> d)
                                     + (now - j) div 1000)\<rparr>)"
    using leave_effect by blast
next
  let ?s1 = "recordParticipantJoin t1 u s"
  let ?s2 = "recordParticipantLeave t2 u ?s1"
  let ?s3 = "recordParticipantJoin t3 u ?s2"
  obtain p1 where p1: "participantOf u ?s1 = Some p1" and j1: "p_joinedAt p1 = Some t1"
    and d1: "p_duration p1 = (case participantOf u s of None \<Rightarrow> None | Some p0 \<Rightarrow> p_duration p0)"
    using join_effect [of u t1 s] by (cases "participantOf u s") auto
  from leave_effect [OF p1 j1, of t2] obtain p2 where p2: "participantOf u ?s2 = Some p2"
    and d2: "p_duration p2 = Some ((case p_duration p1 of None \<Rightarrow> 0 | Some d \<Rightarrow> d) + (t2 - t1) div 1000)"
    by auto
  from join_effect [of u t3 ?s2] p2 obtain p3 where p3: "participantOf u ?s3 = Some p3"
    and j3: "p_joinedAt p3 = Some t3" and d3: "p_duration p3 = p_duration p2"
    by auto
  from leave_effect [OF p3 j3, of t4] d3 d2 d1
  show "\<exists>q. participantOf u (recordParticipantLeave t4 u ?s3) = Some q
          \<and> p_leaveAt q = Some t4
          \<and> p_duration q =
              Some ((case participantOf u s of None \<Rightarrow> 0
                     | Some p0 \<Rightarrow> (case p_duration p0 of None \<Rightarrow> 0 | Some d \<Rightarrow> d))
                    + (t2 - t1) div 1000 + (t4 - t3) div 1000)"
    by (cases "participantOf u s") auto
qed

theorem C8_leave_accumulates_witness:
  "participantOf ''u1'' (mk_session ''s1'' ''t1'' Live [mk_participant ''u1'' (Some 1000) None (Some 7)])
     = Some (mk_participant ''u1'' (Some 1000) None (Some 7))
   \<and> p_joinedAt (mk_participant ''u1'' (Some 1000) None (Some 7)) = Some 1000
   \<and> participantOf ''u1'' (recordParticipantLeave 5500 ''u1''
        (mk_session ''s1'' ''t1'' Live [mk_participant ''u1'' (Some 1000) None (Some 7)]))
     = Some (mk_participant ''u1'' (Some 1000) (Some 5500) (Some 11))"
  using C8_leave_accumulates [of "''u1''"
      "mk_session ''s1'' ''t1'' Live [mk_participant ''u1'' (Some 1000) None (Some 7)]"
      "mk_participant ''u1'' (Some 1000) None (Some 7)" 1000 5500]
  by (simp add: participantOf_def mk_session_def mk_participant_def)

subsection \<open>Store access\<close>

lemma findSessionById_SomeD:
  "findSessionById i ss = Some s \<Longrightarrow> s_id s = i \<and> s \<in> set ss"
  unfolding findSessionById_def
  by (induction ss) (auto split: if_splits)

lemma findUserById_SomeD:
  "findUserById i us = Some u \<Longrightarrow> u_id u = i \<and> u \<in> set us"
  unfolding findUserById_def
  by (induction us) (auto split: if_splits)

lemma find_save_session:
  "findSessionById j (save_session now s ss) =
     (if j = s_id s then map_option (\<lambda>_. s\<lparr>updatedAt := now\<rparr>) (findSessionById j ss)
      else findSessionById j ss)"
  unfolding findSessionById_def save_session_def
  by (induction ss) auto

lemma find_save_user:
  "findUserById j (save_user now u us) =
     (if j = u_id u then map_option (\<lambda>_. u\<lparr>u_updatedAt := now\<rparr>) (findUserById j us)
      else findUserById j us)"
  unfolding findUserById_def save_user_def
  by (induction us) auto

subsection \<open>Leaving a stream\<close>

text \<open>
  Claim C10. When the requester has no participant record with a join timestamp on the
  session, \<^verbatim>\<open>leaveStream\<close> answers 200 with 'Left stream successfully' and saves the
  session as it was: the participants list and the status are unchanged, only
  \<^verbatim>\<open>updatedAt\<close> is set by the save. Nothing is asked of the session's status.
\<close>

theorem C10_leave_without_join_noop:
  assumes "findSessionById i (sessions st) = Some s"
    and "\<not> (\<exists>p \<in> set (participants s). p_user p = req_id req \<and> p_joinedAt p \<noteq> None)"
  shows "leaveStream now req i st =
           (respond 200 ''Left stream successfully'',
            st\<lparr>sessions := save_session now s (sessions st)\<rparr>)
         \<and> findSessionById i (sessions (snd (leaveStream now req i st)))
             = Some (s\<lparr>updatedAt := now\<rparr>)
         \<and> participants (s\<lparr>updatedAt := now\<rparr>) = participants s
         \<and> status (s\<lparr>updatedAt := now\<rparr>) = status s"
proof -
  have "\<not> (\<exists>p. participantOf (req_id req) s = Some p \<and> p_joinedAt p \<noteq> None)"
  proof
    assume "\<exists>p. participantOf (req_id req) s = Some p \<and> p_joinedAt p \<noteq> None"
    then obtain p where p: "find (\<lambda>p. p_user p = req_id req) (participants s) = Some p"
      and j: "p_joinedAt p \<noteq> None"
      by (auto simp: participantOf_def)
    from p have "p \<in> set (participants s) \<and> p_user p = req_id req"
      by (auto simp: find_Some_iff)
    with j assms(2) show False by blast
  qed
  then have noop: "recordParticipantLeave now (req_id req) s = s"
    by (rule leave_noop)
  from assms(1) have "s_id s = i" by (simp add: findSessionById_SomeD)
  with assms(1) noop show ?thesis
    by (simp add: leaveStream_def find_save_session)
qed

theorem C10_leave_without_join_noop_witness:
  "findSessionById ''s1''
       (sessions (mk_store [mk_session ''s1'' ''t1'' Scheduled [mk_participant ''u1'' None None None]] []))
     = Some (mk_session ''s1'' ''t1'' Scheduled [mk_participant ''u1'' None None None])
   \<and> leaveStream 7000 \<lparr>req_id = ''u1'', req_role = User\<rparr> ''s1''
       (mk_store [mk_session ''s1'' ''t1'' Scheduled [mk_participant ''u1'' None None None]] [])
     = (respond 200 ''Left stream successfully'',
        mk_store [(mk_session ''s1'' ''t1'' Scheduled [mk_participant ''u1'' None None None])
                    \<lparr>updatedAt := 7000\<rparr>] [])"
  using C10_leave_without_join_noop [of "''s1''"
      "mk_store [mk_session ''s1'' ''t1'' Scheduled [mk_participant ''u1'' None None None]] []"
      "mk_session ''s1'' ''t1'' Scheduled [mk_participant ''u1'' None None None]"
      "\<lparr>req_id = ''u1'', req_role = User\<rparr>" 7000]
  by (simp add: findSessionById_def mk_store_def mk_session_def mk_participant_def
      save_session_def)

subsection \<open>Credentials\<close>

text \<open>
  Claim C7. The host and the viewer credential are both scoped to the channel
  \<open>''session_'' @ sessionId\<close>. With the service configured the host credential expires
  24 hours and the viewer credential 3 hours after the current time in seconds; with the
  service not configured, as it is when either environment variable is unset, both are
  the fixed placeholder string.
\<close>

theorem C7_credentials:
  "cd_channelName (createChannel build svc now sessionId trainerId) = ''session_'' @ sessionId
   \<and> vd_channelName (generateViewerToken build svc now sessionId userId) = ''session_'' @ sessionId
   \<and> (isConfigured svc \<longrightarrow>
        hostToken (createChannel build svc now sessionId trainerId)
          = build (appId svc) (appCertificate svc) (''session_'' @ sessionId) trainerId
              PUBLISHER (now div 1000 + 24 * 60 * 60)
        \<and> viewerToken (generateViewerToken build svc now sessionId userId)
          = build (appId svc) (appCertificate svc) (''session_'' @ sessionId) userId
              SUBSCRIBER (now div 1000 + 3 * 60 * 60))
   \<and> (\<not> isConfigured svc \<longrightarrow>
        hostToken (createChannel build svc now sessionId trainerId)
          = ''placeholder-token-agora-not-configured''
        \<and> viewerToken (generateViewerToken build svc now sessionId userId)
          = ''placeholder-token-agora-not-configured'')
   \<and> (env_app_id = None \<or> env_app_certificate = None \<longrightarrow>
        \<not> isConfigured (AgoraService env_app_id env_app_certificate))"
  by (auto simp: createChannel_def generateViewerToken_def generateToken_def Let_def
      AgoraService_def truthy_str_def)

theorem C7_credentials_witness:
  "isConfigured (AgoraService (Some ''app'') (Some ''cert''))
   \<and> hostToken (createChannel (\<lambda>a c ch u r e. ch) (AgoraService (Some ''app'') (Some ''cert''))
        5000 ''s1'' ''t1'')
      = (\<lambda>a c ch u r e. ch) ''app'' ''cert'' ''session_s1'' ''t1'' PUBLISHER (86405::int)
   \<and> \<not> isConfigured (AgoraService None None)
   \<and> hostToken (createChannel (\<lambda>a c ch u r e. ch) (AgoraService None None) 5000 ''s1'' ''t1'')
      = ''placeholder-token-agora-not-configured''
   \<and> viewerToken (generateViewerToken (\<lambda>a c ch u r e. ch) (AgoraService None None) 5000 ''s1'' ''u1'')
      = ''placeholder-token-agora-not-configured''"
  using C7_credentials [of "\<lambda>a c ch u r e. ch" "AgoraService (Some ''app'') (Some ''cert'')"
      5000 "''s1''" "''t1''" "''u1''" None None]
    C7_credentials [of "\<lambda>a c ch u r e. ch" "AgoraService None None"
      5000 "''s1''" "''t1''" "''u1''" None None]
  by (simp add: AgoraService_def truthy_str_def)

subsection \<open>Analytics\<close>

lemma completed_le_attended:
  "completed (participantAnalytics s) \<le> attended (participantAnalytics s)"
proof -
  have "filter (\<lambda>p. p_joinedAt p \<noteq> None \<and> truthy_num (p_duration p)
               \<and> 10 * the (p_duration p) \<ge> duration s * 8) (participants s)
        = filter (\<lambda>p. truthy_num (p_duration p) \<and> 10 * the (p_duration p) \<ge> duration s * 8)
            (filter (\<lambda>p. p_joinedAt p \<noteq> None) (participants s))"
    by (simp add: conj_commute)
  then show ?thesis
    by (simp add: participantAnalytics_def del: filter_filter)
qed

text \<open>
  Claim C6. The claim wants the tracked duration and 80% of the scheduled duration
  compared in one time unit. The handler compares the participant's duration, which is
  in seconds, with 0.8 times the session's duration, which is in minutes: a participant
  who joined at 0 and left at 60000, so watched 60 seconds of a 60-minute session, is
  counted as completed in the analytics the session's trainer gets, while the count
  taken in one unit, \<open>completedSameUnit\<close>, is 0.
\<close>

theorem C6_completed_mixes_units:
  "participants (recordParticipantLeave 60000 ''u1''
       (recordParticipantJoin 0 ''u1'' (mk_session ''s1'' ''t1'' Live [])))
     = [mk_participant ''u1'' (Some 0) (Some 60000) (Some 60)]
   \<and> getSessionAnalytics \<lparr>req_id = ''t1'', req_role = Trainer\<rparr> ''s1''
       (mk_store [mk_session ''s1'' ''t1'' Completed
                    [mk_participant ''u1'' (Some 0) (Some 60000) (Some 60)]]
                 [mk_user ''t1'' Trainer 0 [], mk_user ''u1'' User 0 [''s1'']])
     = (respond 200 ''OK'', Some \<lparr>registered = 1, attended = 1, completed = 1\<rparr>)
   \<and> completedSameUnit (mk_session ''s1'' ''t1'' Completed
                  [mk_participant ''u1'' (Some 0) (Some 60000) (Some 60)]) = 0"
  by (simp add: getSessionAnalytics_def participantAnalytics_def completedSameUnit_def
      findSessionById_def findUserById_def mk_store_def mk_session_def mk_participant_def
      mk_user_def truthy_num_def recordParticipantJoin_def recordParticipantLeave_def)

subsection \<open>Joining a stream\<close>

lemma joinStream_ok_live:
  assumes "status_code (fst (joinStream now req i st)) = 200"
  shows "\<exists>s. findSessionById i (sessions st) = Some s \<and> status s = Live"
  using assms
  by (auto simp: joinStream_def respond_def split: option.splits if_splits)

lemma joinStream_records_join:
  assumes "findSessionById i (sessions st) = Some s" and "status s = Live"
  shows "\<exists>s' p. findSessionById i (sessions (snd (joinStream now req i st))) = Some s'
           \<and> participantOf (req_id req) s' = Some p
           \<and> p_joinedAt p = Some now \<and> p_leaveAt p = None"
proof -
  let ?s' = "recordParticipantJoin now (req_id req) s"
  have id: "s_id ?s' = s_id s"
    by (simp add: recordParticipantJoin_def Let_def)
  from assms(1) have "s_id s = i" by (simp add: findSessionById_SomeD)
  with assms id have f: "findSessionById i (sessions (snd (joinStream now req i st)))
      = Some (?s'\<lparr>updatedAt := now\<rparr>)"
    by (simp add: joinStream_def find_save_session)
  from join_effect [of "req_id req" now s]
  obtain p where "participantOf (req_id req) ?s' = Some p" "p_joinedAt p = Some now"
    "p_leaveAt p = None"
    by (cases "participantOf (req_id req) s") auto
  with f show ?thesis by (auto simp: participantOf_def)
qed

text \<open>
  Claim C5. The claim wants a join rejected for a user who is neither the trainer nor
  holds a booking. The handler in effect asks only for a live session: a user without
  any booking joins with 200 and gets a participant record. The first assignment of
  \<^verbatim>\<open>exports.joinStream\<close>, which the second one overwrites, answers 403 on the same
  input and leaves the store as it is.
\<close>

theorem C5_join_without_booking:
  "joinStream 5000 \<lparr>req_id = ''u2'', req_role = User\<rparr> ''s1''
     (mk_store [mk_session ''s1'' ''t1'' Live []] [mk_user ''u2'' User 0 []])
     = (respond 200 ''Joined stream successfully'',
        mk_store [(mk_session ''s1'' ''t1'' Live [mk_participant ''u2'' (Some 5000) None None])
                    \<lparr>updatedAt := 5000\<rparr>] [mk_user ''u2'' User 0 []])
   \<and> joinStream_first 5000 \<lparr>req_id = ''u2'', req_role = User\<rparr> ''s1''
       (mk_store [mk_session ''s1'' ''t1'' Live []] [mk_user ''u2'' User 0 []])
     = (respond 403 ''You must book this session to join'',
        mk_store [mk_session ''s1'' ''t1'' Live []] [mk_user ''u2'' User 0 []])"
  by (simp add: joinStream_def joinStream_first_def recordParticipantJoin_def
      findSessionById_def findUserById_def hasBooking_def save_session_def
      mk_store_def mk_session_def mk_user_def mk_participant_def)

subsection \<open>Booking\<close>

text \<open>
  Claim C2. For a session and a requesting user that exist, \<^verbatim>\<open>bookSession\<close> answers 400
  exactly when the scheduled time is before the request, or the session is cancelled, or
  the user already holds a booking of it, or the capacity is positive and reached, or the
  user's tokens are below the token cost; the messages for the last two are 'Session is
  full' and 'Insufficient tokens'. A 400 answer leaves the whole store, so the balance,
  the bookings and the participants, as it was; every other answer is the 200 of a
  booking.
\<close>

theorem C2_book_rejections:
  assumes "findSessionById i (sessions st) = Some s"
    and "findUserById (req_id req) (users st) = Some u"
  shows "(status_code (fst (bookSession now req i st)) = 400 \<longleftrightarrow>
            (scheduledAt s < now \<or> status s = Cancelled \<or> hasBooking i u
             \<or> (maxParticipants s > 0 \<and> int (length (participants s)) \<ge> maxParticipants s)
             \<or> tokens u < tokenCost s))
         \<and> (status_code (fst (bookSession now req i st)) = 400 \<longrightarrow>
              snd (bookSession now req i st) = st)
         \<and> (\<not> scheduledAt s < now \<and> status s \<noteq> Cancelled \<and> \<not> hasBooking i u
              \<and> maxParticipants s > 0 \<and> int (length (participants s)) \<ge> maxParticipants s \<longrightarrow>
              fst (bookSession now req i st) = respond 400 ''Session is full'')
         \<and> (\<not> scheduledAt s < now \<and> status s \<noteq> Cancelled \<and> \<not> hasBooking i u
              \<and> \<not> (maxParticipants s > 0 \<and> int (length (participants s)) \<ge> maxParticipants s)
              \<and> tokens u < tokenCost s \<longrightarrow>
              fst (bookSession now req i st) = respond 400 ''Insufficient tokens'')
         \<and> (status_code (fst (bookSession now req i st)) \<noteq> 400 \<longrightarrow>
              fst (bookSession now req i st) = respond 200 ''Session booked successfully'')"
proof -
  from assms(1) have "s_id s = i" by (simp add: findSessionById_SomeD)
  with assms show ?thesis
    by (simp add: bookSession_def respond_def Let_def)
qed

theorem C2_book_rejections_witness:
  "findSessionById ''s1'' (sessions (mk_store [mk_session ''s1'' ''t1'' Scheduled []]
                                               [mk_user ''u1'' User 1 []]))
     = Some (mk_session ''s1'' ''t1'' Scheduled [])
   \<and> findUserById ''u1'' (users (mk_store [mk_session ''s1'' ''t1'' Scheduled []]
                                           [mk_user ''u1'' User 1 []]))
     = Some (mk_user ''u1'' User 1 [])
   \<and> tokens (mk_user ''u1'' User 1 []) < tokenCost (mk_session ''s1'' ''t1'' Scheduled [])
   \<and> bookSession 5000 \<lparr>req_id = ''u1'', req_role = User\<rparr> ''s1''
        (mk_store [mk_session ''s1'' ''t1'' Scheduled []] [mk_user ''u1'' User 1 []])
     = (respond 400 ''Insufficient tokens'',
        mk_store [mk_session ''s1'' ''t1'' Scheduled []] [mk_user ''u1'' User 1 []])"
  using C2_book_rejections [of "''s1''"
      "mk_store [mk_session ''s1'' ''t1'' Scheduled []] [mk_user ''u1'' User 1 []]"
      "mk_session ''s1'' ''t1'' Scheduled []" "\<lparr>req_id = ''u1'', req_role = User\<rparr>"
      "mk_user ''u1'' User 1 []" 5000]
  by (simp add: findSessionById_def findUserById_def mk_store_def mk_session_def mk_user_def
      hasBooking_def respond_def prod_eq_iff)

subsection \<open>Refund on cancellation\<close>

lemma refundUser_id [simp]: "u_id (refundUser cost sessionId u) = u_id u"
  by (simp add: refundUser_def)

lemma refundLoop_map:
  "distinct (map u_id found) \<Longrightarrow>
   refundLoop now cost sessionId found us =
     map (\<lambda>v. case find (\<lambda>u. u_id u = u_id v) found of
                 Some u \<Rightarrow> (refundUser cost sessionId u)\<lparr>u_updatedAt := now\<rparr>
               | None \<Rightarrow> v) us"
proof (induction found arbitrary: us)
  case Nil
  then show ?case by (simp add: map_idI)
next
  case (Cons u found)
  from Cons.prems have d: "distinct (map u_id found)"
    and fresh: "find (\<lambda>w. u_id w = u_id u) found = None"
    by (auto simp: find_None_iff image_iff)
  show ?case
    by (simp add: Cons.IH [OF d] save_user_def fresh)
qed

lemma find_in_filter:
  "distinct (map u_id us) \<Longrightarrow> v \<in> set us \<Longrightarrow>
   find (\<lambda>u. u_id u = u_id v) (filter P us) = (if P v then Some v else None)"
proof (induction us)
  case Nil
  then show ?case by simp
next
  case (Cons a us)
  show ?case
  proof (cases "v = a")
    case True
    with Cons.prems show ?thesis
      by (auto simp: find_None_iff image_iff)
  next
    case False
    with Cons.prems have "v \<in> set us" "u_id a \<noteq> u_id v" "distinct (map u_id us)"
      by auto
    with Cons.IH show ?thesis by simp
  qed
qed

lemma refund_total:
  "sum_list (map tokens (map (\<lambda>u. if P u then (refundUser cost sessionId u)\<lparr>u_updatedAt := now\<rparr>
                                    else u) us))
     = sum_list (map tokens us) + int (length (filter P us)) * cost"
  by (induction us) (auto simp: refundUser_def algebra_simps)

text \<open>Cancelling through \<^verbatim>\<open>updateSessionStatus\<close>: the session is stored as cancelled,
  each user holding a booking of it gets the token cost once and loses the bookings of
  this session, and no other user changes.\<close>

lemma updateSessionStatus_cancel_refunds:
  assumes "findSessionById i (sessions st) = Some s"
    and "status s = Scheduled"
    and "trainer s = req_id req \<or> req_role req = Admin"
    and "distinct (map u_id (users st))"
  shows "fst (updateSessionStatus now req i ''cancelled'' st)
           = respond 200 ''Session cancelled successfully''
       \<and> users (snd (updateSessionStatus now req i ''cancelled'' st))
           = map (\<lambda>u. if hasBooking i u
                       then u\<lparr>tokens := tokens u + tokenCost s,
                              bookedSessions := filter (\<lambda>b. b_session b \<noteq> i) (bookedSessions u),
                              u_updatedAt := now\<rparr>
                       else u) (users st)
       \<and> sum_list (map tokens (users (snd (updateSessionStatus now req i ''cancelled'' st))))
           = sum_list (map tokens (users st))
             + int (length (filter (hasBooking i) (users st))) * tokenCost s
       \<and> list_all (\<lambda>u. \<not> hasBooking i u)
           (users (snd (updateSessionStatus now req i ''cancelled'' st)))
       \<and> findSessionById i (sessions (snd (updateSessionStatus now req i ''cancelled'' st)))
           = Some (s\<lparr>status := Cancelled, updatedAt := now\<rparr>)"
proof -
  let ?r = "updateSessionStatus now req i ''cancelled'' st"
  let ?f = "\<lambda>u. if hasBooking i u then (refundUser (tokenCost s) i u)\<lparr>u_updatedAt := now\<rparr> else u"
  from assms(1) have id: "s_id s = i" by (simp add: findSessionById_SomeD)
  have dist: "distinct (map u_id (filter (hasBooking i) (users st)))"
    using assms(4) by (simp add: distinct_map_filter)
  have loop: "refundLoop now (tokenCost s) i (filter (hasBooking i) (users st)) (users st)
                = map ?f (users st)"
    unfolding refundLoop_map [OF dist]
    by (rule map_cong) (simp_all add: find_in_filter [OF assms(4)])
  have r: "?r = (respond 200 ''Session cancelled successfully'',
                 st\<lparr>sessions := save_session now (s\<lparr>status := Cancelled\<rparr>) (sessions st),
                    users := map ?f (users st)\<rparr>)"
    using assms(1,2,3) id loop
    by (auto simp: updateSessionStatus_def Let_def)
  have u: "users (snd ?r) = map ?f (users st)" by (simp add: r)
  have "list_all (\<lambda>u. \<not> hasBooking i u) (map ?f (users st))"
    by (auto simp: list_all_iff hasBooking_def refundUser_def list_ex_iff)
  moreover have "findSessionById i (sessions (snd ?r)) = Some (s\<lparr>status := Cancelled, updatedAt := now\<rparr>)"
    using assms(1) id by (simp add: r find_save_session)
  ultimately show ?thesis
    using r u refund_total [where P = "hasBooking i" and cost = "tokenCost s" and sessionId = i
      and now = now and us = "users st"]
    by (simp add: refundUser_def)
qed

lemmas model_defs =
  findSessionById_def findUserById_def findPackageById_def save_session_def save_user_def
  respond_def server_error_def truthy_str_def truthy_num_def hasBooking_def
  status_of_string_def string_of_status_def
  applyUpdateFields_def updateSession_def bookSession_def rateSession_def finishRating_def updateTrainerRating_def
  calculateAverageRating_def toFixed1_def refundUser_def updateSessionStatus_def
  updateSessionStreamStatus_def startStream_def endStream_def joinStream_def leaveStream_def
  createSession_def deleteSession_def sendMessage_def sendReaction_def addMessage_def
  addReaction_def js_whitespace_def
  recordParticipantJoin_def recordParticipantLeave_def updateTokens_def purchasePackage_def
  createChannel_def generateToken_def AgoraService_def
  mk_store_def mk_session_def mk_user_def mk_participant_def ex_env_def

subsection \<open>Cancelling through the general update\<close>

text \<open>
  Claim C3. The claim wants every user holding a booking refunded when a scheduled
  session is cancelled. \<^verbatim>\<open>updateSession\<close> with the status 'cancelled' stores the
  session as cancelled and answers 200 without touching any user: the user who paid keeps
  a balance of 0 and the booking. \<^verbatim>\<open>updateSessionStatus\<close> on the same store credits
  the 2 tokens and removes the booking.
\<close>

theorem C3_cancel_by_update_refunds_nobody:
  "hasBooking ''s1'' (mk_user ''u1'' User 0 [''s1''])
   \<and> updateSession 9 \<lparr>req_id = ''t1'', req_role = Trainer\<rparr> ''s1''
        \<lparr>ub_scheduledAt = None, ub_duration = None, ub_tokenCost = None,
         ub_maxParticipants = None, ub_status = Some ''cancelled''\<rparr>
        (mk_store [mk_session ''s1'' ''t1'' Scheduled [mk_participant ''u1'' None None None]]
           [mk_user ''t1'' Trainer 0 [], mk_user ''u1'' User 0 [''s1'']])
      = (respond 200 ''OK'',
         mk_store [(mk_session ''s1'' ''t1'' Cancelled [mk_participant ''u1'' None None None])
                     \<lparr>updatedAt := 9\<rparr>]
           [mk_user ''t1'' Trainer 0 [], mk_user ''u1'' User 0 [''s1'']])
   \<and> map (\<lambda>u. (tokens u, map b_session (bookedSessions u)))
        (users (snd (updateSessionStatus 9 \<lparr>req_id = ''t1'', req_role = Trainer\<rparr> ''s1''
          ''cancelled''
          (mk_store [mk_session ''s1'' ''t1'' Scheduled [mk_participant ''u1'' None None None]]
             [mk_user ''t1'' Trainer 0 [], mk_user ''u1'' User 0 [''s1'']]))))
      = [(0, []), (2, [])]"
  by (simp add: model_defs)

subsection \<open>Token balances\<close>

lemma nonneg_save_user:
  "list_all (\<lambda>u. 0 \<le> tokens u) us \<Longrightarrow> 0 \<le> tokens u \<Longrightarrow>
   list_all (\<lambda>u. 0 \<le> tokens u) (save_user now u us)"
  by (auto simp: save_user_def list_all_iff)

lemma nonneg_found:
  "list_all (\<lambda>u. 0 \<le> tokens u) us \<Longrightarrow> findUserById i us = Some u \<Longrightarrow> 0 \<le> tokens u"
  by (auto simp: list_all_iff dest: findUserById_SomeD)

lemma refundLoop_nonneg:
  "0 \<le> cost \<Longrightarrow> list_all (\<lambda>u. 0 \<le> tokens u) found \<Longrightarrow> list_all (\<lambda>u. 0 \<le> tokens u) us \<Longrightarrow>
   list_all (\<lambda>u. 0 \<le> tokens u) (refundLoop now cost sessionId found us)"
proof (induction found arbitrary: us)
  case Nil
  then show ?case by simp
next
  case (Cons u found)
  from Cons.prems have "0 \<le> tokens (refundUser cost sessionId u)"
    by (simp add: refundUser_def)
  with Cons.prems have "list_all (\<lambda>u. 0 \<le> tokens u) (save_user now (refundUser cost sessionId u) us)"
    by (simp add: nonneg_save_user)
  with Cons show ?case by simp
qed

lemma bookSession_nonneg:
  assumes "nonneg_balances st"
  shows "nonneg_balances (snd (bookSession now req i st))"
proof (cases "findUserById (req_id req) (users st)")
  case None
  with assms show ?thesis
    by (simp add: bookSession_def split: option.splits)
next
  case (Some user)
  with assms have "0 \<le> tokens user"
    by (auto simp: nonneg_balances_def dest: nonneg_found)
  with assms Some show ?thesis
    by (simp add: bookSession_def Let_def nonneg_balances_def nonneg_save_user
        split: option.splits)
qed

lemma updateTokens_nonneg:
  assumes "nonneg_balances st"
  shows "nonneg_balances (snd (updateTokens now i amount operation st))"
proof (cases "findUserById i (users st)")
  case None
  with assms show ?thesis
    by (simp add: updateTokens_def)
next
  case (Some user)
  with assms have "0 \<le> tokens user"
    by (auto simp: nonneg_balances_def dest: nonneg_found)
  with assms Some show ?thesis
    by (auto simp: updateTokens_def nonneg_balances_def truthy_num_def
        intro!: nonneg_save_user split: option.splits)
qed

lemma purchasePackage_nonneg:
  assumes "nonneg_balances st"
    and "\<forall>p. findPackageById i (packages st) = Some p \<longrightarrow> 0 \<le> tokenAmount p"
  shows "nonneg_balances (snd (purchasePackage now req i pm st))"
proof (cases "findUserById (req_id req) (users st)")
  case None
  with assms show ?thesis
    by (simp add: purchasePackage_def Let_def split: option.splits)
next
  case (Some user)
  with assms have "0 \<le> tokens user"
    by (auto simp: nonneg_balances_def dest: nonneg_found)
  with assms Some show ?thesis
    by (auto simp: purchasePackage_def Let_def nonneg_balances_def
        intro!: nonneg_save_user split: option.splits)
qed

lemma updateSessionStatus_nonneg:
  assumes "nonneg_balances st"
    and "\<forall>s. findSessionById i (sessions st) = Some s \<longrightarrow> 0 \<le> tokenCost s"
  shows "nonneg_balances (snd (updateSessionStatus now req i new_status st))"
proof (cases "findSessionById i (sessions st)")
  case None
  with assms show ?thesis
    by (simp add: updateSessionStatus_def)
next
  case (Some s)
  with assms have c: "0 \<le> tokenCost s" by simp
  have f: "list_all (\<lambda>u. 0 \<le> tokens u) (filter (hasBooking (s_id s)) (users st))"
    using assms(1) by (simp add: nonneg_balances_def list_all_iff)
  from assms(1) have "list_all (\<lambda>u. 0 \<le> tokens u)
      (refundLoop now (tokenCost s) (s_id s) (filter (hasBooking (s_id s)) (users st)) (users st))"
    by (intro refundLoop_nonneg c f) (simp add: nonneg_balances_def)
  with assms(1) Some show ?thesis
    by (simp add: updateSessionStatus_def Let_def nonneg_balances_def)
qed

lemma bookSession_rejected:
  "status_code (fst (bookSession now req i st)) \<noteq> 200 \<Longrightarrow> snd (bookSession now req i st) = st"
  by (auto simp: bookSession_def respond_def Let_def split: option.splits if_splits)

lemma updateTokens_rejected:
  "status_code (fst (updateTokens now i amount operation st)) \<noteq> 200 \<Longrightarrow>
   snd (updateTokens now i amount operation st) = st"
  by (auto simp: updateTokens_def respond_def split: option.splits if_splits)

lemma purchasePackage_rejected:
  "status_code (fst (purchasePackage now req i pm st)) \<noteq> 200 \<Longrightarrow>
   snd (purchasePackage now req i pm st) = st"
  by (auto simp: purchasePackage_def respond_def Let_def split: option.splits if_splits)

lemma updateSessionStatus_rejected:
  "status_code (fst (updateSessionStatus now req i new_status st)) \<noteq> 200 \<Longrightarrow>
   snd (updateSessionStatus now req i new_status st) = st"
  by (auto simp: updateSessionStatus_def respond_def Let_def split: option.splits if_splits)

text \<open>
  Claim C9, amended. From a store where every balance is at least 0: booking and
  \<^verbatim>\<open>updateTokens\<close> (add, subtract, set) keep every balance at least 0; so does a
  purchase when the package's token amount is at least 0, and so does
  \<^verbatim>\<open>updateSessionStatus\<close>, with its refund, when the session's token cost is at least
  0. Each of the four leaves the store as it was when it does not answer 200.
\<close>

theorem C9_balances_stay_nonneg:
  assumes "nonneg_balances st"
  shows "nonneg_balances (snd (bookSession now req i st))
       \<and> nonneg_balances (snd (updateTokens now uid amount operation st))
       \<and> ((\<forall>p. findPackageById pid (packages st) = Some p \<longrightarrow> 0 \<le> tokenAmount p) \<longrightarrow>
            nonneg_balances (snd (purchasePackage now req pid pm st)))
       \<and> ((\<forall>s. findSessionById i (sessions st) = Some s \<longrightarrow> 0 \<le> tokenCost s) \<longrightarrow>
            nonneg_balances (snd (updateSessionStatus now req i new_status st)))
       \<and> (status_code (fst (bookSession now req i st)) \<noteq> 200 \<longrightarrow>
            snd (bookSession now req i st) = st)
       \<and> (status_code (fst (updateTokens now uid amount operation st)) \<noteq> 200 \<longrightarrow>
            snd (updateTokens now uid amount operation st) = st)
       \<and> (status_code (fst (purchasePackage now req pid pm st)) \<noteq> 200 \<longrightarrow>
            snd (purchasePackage now req pid pm st) = st)
       \<and> (status_code (fst (updateSessionStatus now req i new_status st)) \<noteq> 200 \<longrightarrow>
            snd (updateSessionStatus now req i new_status st) = st)"
  by (simp add: assms bookSession_nonneg updateTokens_nonneg purchasePackage_nonneg
      updateSessionStatus_nonneg bookSession_rejected updateTokens_rejected
      purchasePackage_rejected updateSessionStatus_rejected)

text \<open>
  Claim C9 as stated fails: neither schema nor controller bounds the token cost from
  below. A user with 2 tokens books a session costing 2, the trainer sets the cost to -5
  and cancels: the refund takes the balance from 0 to -5.
\<close>

theorem C9_negative_cost_refund_counterexample:
  "nonneg_balances (mk_store [mk_session ''s1'' ''t1'' Scheduled []] [mk_user ''u1'' User 2 []])
   \<and> map tokens (users (run ex_env
        [(1, BookSession \<lparr>req_id = ''u1'', req_role = User\<rparr> ''s1''),
         (2, UpdateSession \<lparr>req_id = ''t1'', req_role = Trainer\<rparr> ''s1''
               \<lparr>ub_scheduledAt = None, ub_duration = None, ub_tokenCost = Some (- 5),
                ub_maxParticipants = None, ub_status = None\<rparr>)]
        (mk_store [mk_session ''s1'' ''t1'' Scheduled []] [mk_user ''u1'' User 2 []]))) = [0]
   \<and> map tokens (users (run ex_env
        [(1, BookSession \<lparr>req_id = ''u1'', req_role = User\<rparr> ''s1''),
         (2, UpdateSession \<lparr>req_id = ''t1'', req_role = Trainer\<rparr> ''s1''
               \<lparr>ub_scheduledAt = None, ub_duration = None, ub_tokenCost = Some (- 5),
                ub_maxParticipants = None, ub_status = None\<rparr>),
         (3, UpdateSessionStatus \<lparr>req_id = ''t1'', req_role = Trainer\<rparr> ''s1'' ''cancelled'')]
        (mk_store [mk_session ''s1'' ''t1'' Scheduled []] [mk_user ''u1'' User 2 []]))) = [- 5]"
  by (simp add: model_defs nonneg_balances_def)

theorem C9_balances_stay_nonneg_witness:
  "nonneg_balances ((mk_store [mk_session ''s1'' ''t1'' Scheduled []]
                       [mk_user ''u1'' User 1 [''s1'']])\<lparr>packages := [mk_package ''p1'' 10]\<rparr>)
   \<and> findPackageById ''p1'' [mk_package ''p1'' 10] = Some (mk_package ''p1'' 10)
   \<and> 0 \<le> tokenAmount (mk_package ''p1'' 10)
   \<and> map tokens (users (snd (purchasePackage 3 \<lparr>req_id = ''u1'', req_role = User\<rparr> ''p1''
        (Some ''paypal'')
        ((mk_store [mk_session ''s1'' ''t1'' Scheduled []]
            [mk_user ''u1'' User 1 [''s1'']])\<lparr>packages := [mk_package ''p1'' 10]\<rparr>)))) = [11]
   \<and> 0 \<le> tokenCost (mk_session ''s1'' ''t1'' Scheduled [])
   \<and> map tokens (users (snd (updateSessionStatus 3 \<lparr>req_id = ''t1'', req_role = Trainer\<rparr> ''s1''
        ''cancelled''
        ((mk_store [mk_session ''s1'' ''t1'' Scheduled []]
            [mk_user ''u1'' User 1 [''s1'']])\<lparr>packages := [mk_package ''p1'' 10]\<rparr>)))) = [3]
   \<and> updateTokens 3 ''u1'' (Some 5) (Some ''subtract'')
        ((mk_store [mk_session ''s1'' ''t1'' Scheduled []]
            [mk_user ''u1'' User 1 [''s1'']])\<lparr>packages := [mk_package ''p1'' 10]\<rparr>)
      = (respond 400 ''User does not have enough tokens'',
         (mk_store [mk_session ''s1'' ''t1'' Scheduled []]
            [mk_user ''u1'' User 1 [''s1'']])\<lparr>packages := [mk_package ''p1'' 10]\<rparr>)
   \<and> bookSession 3 \<lparr>req_id = ''u1'', req_role = User\<rparr> ''s1''
        ((mk_store [mk_session ''s1'' ''t1'' Scheduled []]
            [mk_user ''u1'' User 1 [''s1'']])\<lparr>packages := [mk_package ''p1'' 10]\<rparr>)
      = (respond 400 ''Session already booked'',
         (mk_store [mk_session ''s1'' ''t1'' Scheduled []]
            [mk_user ''u1'' User 1 [''s1'']])\<lparr>packages := [mk_package ''p1'' 10]\<rparr>)"
  using C9_balances_stay_nonneg [where
      st = "(mk_store [mk_session ''s1'' ''t1'' Scheduled []]
              [mk_user ''u1'' User 1 [''s1'']])\<lparr>packages := [mk_package ''p1'' 10]\<rparr>"
      and now = 3 and req = "\<lparr>req_id = ''u1'', req_role = User\<rparr>" and i = "''s1''"
      and uid = "''u1''" and amount = "Some 5" and operation = "Some ''subtract''"
      and pid = "''p1''" and pm = "Some ''paypal''" and new_status = "''cancelled''"]
  by (simp add: model_defs mk_package_def nonneg_balances_def)

subsection \<open>What each handler does to a stored session\<close>

lemma find_stream_update:
  "findSessionById j (updateSessionStreamStatus now i ns ch ss) =
     (if j = i
      then map_option (\<lambda>s. if ns = Live
                       then s\<lparr>status := ns, sd_startedAt := Some now,
                              sd_channelName := ch, sd_resourceId := None\<rparr>
                       else if ns = Completed
                       then s\<lparr>status := ns, sd_endedAt := Some now\<rparr>
                       else s\<lparr>status := ns\<rparr>) (findSessionById j ss)
      else findSessionById j ss)"
  unfolding findSessionById_def updateSessionStreamStatus_def
  by (induction ss) auto

lemma session_step_refl: "session_step edges s s"
  by (simp add: session_step_def)

lemma applyUpdateFields_keeps [simp]:
  "s_id (applyUpdateFields body s) = s_id s"
  "status (applyUpdateFields body s) = status s"
  "ratings (applyUpdateFields body s) = ratings s"
  "averageRating (applyUpdateFields body s) = averageRating s"
  by (simp_all add: applyUpdateFields_def Let_def split: option.splits)

lemma status_of_string_editable:
  "status_of_string str = Some v \<Longrightarrow> str \<noteq> ''live'' \<Longrightarrow> str \<noteq> ''completed'' \<Longrightarrow>
   v = Scheduled \<or> v = Cancelled"
  by (auto simp: status_of_string_def split: if_splits)

text \<open>A save of a session found under \<open>i\<close>, seen from any id \<open>j\<close>.\<close>

lemma frame_save:
  assumes "findSessionById j (sessions st) = Some s"
    and "findSessionById i (sessions st) = Some x"
    and "session_step edges x x'"
  shows "\<exists>s'. findSessionById j (save_session now x' (sessions st)) = Some s'
           \<and> session_step edges s s'"
proof (cases "j = i")
  case True
  with assms(1,2) have "x = s" by simp
  moreover from assms(2) have "s_id x = i" by (simp add: findSessionById_SomeD)
  moreover from assms(3) have "s_id x' = s_id x" by (simp add: session_step_def)
  ultimately show ?thesis
    using assms True by (simp add: find_save_session session_step_def)
next
  case False
  from assms(2) have "s_id x = i" by (simp add: findSessionById_SomeD)
  moreover from assms(3) have "s_id x' = s_id x" by (simp add: session_step_def)
  ultimately show ?thesis
    using assms(1) False by (simp add: find_save_session session_step_refl)
qed

lemma frame_updateSession:
  assumes "findSessionById j (sessions st) = Some s"
  shows "\<exists>s'. findSessionById j (sessions (snd (updateSession now req i body st))) = Some s'
           \<and> session_step [(Scheduled, Cancelled), (Cancelled, Scheduled)] s s'"
proof (cases "findSessionById i (sessions st)")
  case None
  with assms show ?thesis by (simp add: updateSession_def session_step_refl)
next
  case (Some x)
  let ?E = "[(Scheduled, Cancelled), (Cancelled, Scheduled)]"
  let ?x4 = "applyUpdateFields body x"
  have keep: "\<exists>s'. findSessionById j (sessions st) = Some s' \<and> session_step ?E s s'"
    using assms by (simp add: session_step_refl)
  have plain: "\<exists>s'. findSessionById j (save_session now ?x4 (sessions st)) = Some s'
                 \<and> session_step ?E s s'"
    by (rule frame_save [OF assms Some]) (simp add: session_step_def)
  have edited: "\<exists>s'. findSessionById j (save_session now (?x4\<lparr>status := v\<rparr>) (sessions st)) = Some s'
                 \<and> session_step ?E s s'"
    if "status x \<noteq> Live" "status x \<noteq> Completed" "v = Scheduled \<or> v = Cancelled" for v
    by (rule frame_save [OF assms Some]) (use that in \<open>cases "status x"; auto simp: session_step_def\<close>)
  show ?thesis
  proof (cases "trainer x \<noteq> req_id req \<and> req_role req \<noteq> Admin")
    case True
    with Some keep show ?thesis by (simp add: updateSession_def)
  next
    case auth: False
    show ?thesis
    proof (cases "status x = Live \<or> status x = Completed")
      case True
      with Some auth keep show ?thesis by (simp add: updateSession_def)
    next
      case editable: False
      show ?thesis
      proof (cases "truthy_str (ub_status body) \<and> the (ub_status body) \<noteq> ''live''
                     \<and> the (ub_status body) \<noteq> ''completed''")
        case False
        with Some auth editable plain show ?thesis
          by (auto simp: updateSession_def Let_def)
      next
        case True
        show ?thesis
        proof (cases "status_of_string (the (ub_status body))")
          case None
          with Some auth editable True keep show ?thesis
            by (auto simp: updateSession_def Let_def)
        next
          case (Some v)
          with True have "v = Scheduled \<or> v = Cancelled"
            by (simp add: status_of_string_editable)
          with editable have "\<exists>s'. findSessionById j
                 (save_session now (?x4\<lparr>status := v\<rparr>) (sessions st)) = Some s'
                 \<and> session_step ?E s s'"
            by (intro edited) simp_all
          with \<open>findSessionById i (sessions st) = Some x\<close> auth editable True Some show ?thesis
            by (auto simp: updateSession_def Let_def)
        qed
      qed
    qed
  qed
qed

subsection \<open>The result of a rating\<close>

lemma sessions_updateTrainerRating [simp]:
  "sessions (updateTrainerRating fp now t st) = sessions st"
  by (simp add: updateTrainerRating_def Let_def split: option.splits)

lemma finishRating_result:
  "fst (finishRating fp now x st) = respond 200 ''Session rated successfully''"
  "sessions (snd (finishRating fp now x st))
     = save_session now (calculateAverageRating fp x) (sessions st)"
  by (simp_all add: finishRating_def Let_def)

lemma rateSession_rejected:
  assumes "status_code (fst (rateSession fp now req i rating fb st)) \<noteq> 200"
  shows "snd (rateSession fp now req i rating fb st) = st"
proof (cases "\<not> truthy_num rating \<or> the rating < 1 \<or> the rating > 5")
  case True
  then show ?thesis by (simp add: rateSession_def)
next
  case valid: False
  show ?thesis
  proof (cases "findSessionById i (sessions st)")
    case None
    with valid show ?thesis by (simp add: rateSession_def)
  next
    case (Some x)
    show ?thesis
    proof (cases "status x \<noteq> Completed
                   \<or> \<not> list_ex (\<lambda>p. p_user p = req_id req) (participants x)")
      case True
      with valid Some show ?thesis by (auto simp: rateSession_def)
    next
      case ok: False
      show ?thesis
      proof (cases "list_ex (\<lambda>r. r_user r = req_id req) (ratings x)")
        case True
        with valid Some ok assms show ?thesis
          by (simp add: rateSession_def finishRating_result respond_def)
      next
        case False
        with valid Some ok assms show ?thesis
          by (cases "findUserById (req_id req) (users st)")
             (simp_all add: rateSession_def finishRating_result respond_def Let_def
                split: if_splits)
      qed
    qed
  qed
qed

lemma rateSession_ok:
  assumes "status_code (fst (rateSession fp now req i rating fb st)) = 200"
  shows "\<exists>x r. findSessionById i (sessions st) = Some x \<and> rating = Some r \<and> 1 \<le> r \<and> r \<le> 5
           \<and> status x = Completed
           \<and> list_ex (\<lambda>p. p_user p = req_id req) (participants x)
           \<and> sessions (snd (rateSession fp now req i rating fb st))
               = save_session now
                   (calculateAverageRating fp
                      (x\<lparr>ratings := ratedEntries now (req_id req) r fb (ratings x)\<rparr>))
                   (sessions st)"
proof -
  from assms obtain r where r: "rating = Some r" "1 \<le> r" "r \<le> 5"
    by (cases rating) (auto simp: rateSession_def respond_def truthy_num_def split: if_splits)
  with assms obtain x where x: "findSessionById i (sessions st) = Some x"
    by (cases "findSessionById i (sessions st)")
       (auto simp: rateSession_def respond_def truthy_num_def)
  from assms r x have c: "status x = Completed"
    and p: "list_ex (\<lambda>p. p_user p = req_id req) (participants x)"
    by (auto simp: rateSession_def respond_def truthy_num_def split: if_splits)
  have "sessions (snd (rateSession fp now req i rating fb st))
          = save_session now
              (calculateAverageRating fp
                 (x\<lparr>ratings := ratedEntries now (req_id req) r fb (ratings x)\<rparr>))
              (sessions st)"
  proof (cases "list_ex (\<lambda>e. r_user e = req_id req) (ratings x)")
    case True
    with r x c p show ?thesis
      by (simp add: rateSession_def truthy_num_def finishRating_result ratedEntries_def
          cong: if_cong)
  next
    case False
    with assms r x c p obtain u where u: "findUserById (req_id req) (users st) = Some u"
      by (cases "findUserById (req_id req) (users st)")
         (auto simp: rateSession_def respond_def server_error_def truthy_num_def)
    with False r x c p show ?thesis
      by (simp add: rateSession_def truthy_num_def finishRating_result ratedEntries_def Let_def
          cong: if_cong)
  qed
  with r x c p show ?thesis by simp
qed

lemma session_step_mono: "session_step [] s s' \<Longrightarrow> session_step edges s s'"
  by (simp add: session_step_def)

lemma frame_keep:
  "findSessionById j (sessions st) = Some s \<Longrightarrow>
   \<exists>s'. findSessionById j (sessions st) = Some s' \<and> session_step edges s s'"
  by (simp add: session_step_refl)

lemma frame_updateSessionStatus:
  assumes "findSessionById j (sessions st) = Some s"
  shows "\<exists>s'. findSessionById j (sessions (snd (updateSessionStatus now req i new_status st))) = Some s'
           \<and> session_step [(Scheduled, Cancelled), (Cancelled, Scheduled)] s s'"
proof (cases "findSessionById i (sessions st)")
  case None
  with assms show ?thesis by (simp add: updateSessionStatus_def session_step_refl)
next
  case (Some x)
  let ?E = "[(Scheduled, Cancelled), (Cancelled, Scheduled)]"
  note keep = frame_keep [OF assms, of ?E]
  have edited: "\<exists>s'. findSessionById j (save_session now (x\<lparr>status := v\<rparr>) (sessions st)) = Some s'
                 \<and> session_step ?E s s'"
    if "status x \<noteq> Live" "status x \<noteq> Completed" "v = Scheduled \<or> v = Cancelled" for v
    by (rule frame_save [OF assms Some]) (use that in \<open>cases "status x"; auto simp: session_step_def\<close>)
  show ?thesis
  proof (cases "(new_status \<noteq> ''scheduled'' \<and> new_status \<noteq> ''cancelled'')
                 \<or> (trainer x \<noteq> req_id req \<and> req_role req \<noteq> Admin)
                 \<or> status x = Live \<or> status x = Completed")
    case True
    with Some keep show ?thesis by (auto simp: updateSessionStatus_def)
  next
    case False
    then have "status x \<noteq> Live" "status x \<noteq> Completed" by simp_all
    from edited [OF this, of Cancelled] edited [OF this, of Scheduled] False Some
    show ?thesis
      by (auto simp: updateSessionStatus_def Let_def)
  qed
qed

lemma frame_bookSession:
  assumes "findSessionById j (sessions st) = Some s"
  shows "\<exists>s'. findSessionById j (sessions (snd (bookSession now req i st))) = Some s'
           \<and> session_step [] s s'"
proof (cases "findSessionById i (sessions st)")
  case None
  with assms show ?thesis by (simp add: bookSession_def session_step_refl)
next
  case (Some x)
  note keep = frame_keep [OF assms, of "[]"]
  have booked: "\<exists>s'. findSessionById j (save_session now (x\<lparr>participants := ps\<rparr>) (sessions st)) = Some s'
                 \<and> session_step [] s s'" for ps
    by (rule frame_save [OF assms Some]) (simp add: session_step_def)
  from Some keep booked show ?thesis
    by (auto simp: bookSession_def Let_def split: option.splits)
qed

lemma frame_startStream:
  assumes "findSessionById j (sessions st) = Some s"
  shows "\<exists>s'. findSessionById j (sessions (snd (startStream build svc now req i st))) = Some s'
           \<and> session_step [(Scheduled, Live)] s s'"
proof (cases "findSessionById i (sessions st)")
  case None
  with assms show ?thesis by (simp add: startStream_def session_step_refl)
next
  case (Some x)
  show ?thesis
  proof (cases "status x")
    case Scheduled
    with assms Some show ?thesis
      by (auto simp: startStream_def Let_def find_stream_update session_step_def)
  qed (use assms Some in \<open>auto simp: startStream_def session_step_refl\<close>)
qed

lemma frame_endStream:
  assumes "findSessionById j (sessions st) = Some s"
  shows "\<exists>s'. findSessionById j (sessions (snd (endStream now req i st))) = Some s'
           \<and> session_step [(Live, Completed)] s s'"
proof (cases "findSessionById i (sessions st)")
  case None
  with assms show ?thesis by (simp add: endStream_def session_step_refl)
next
  case (Some x)
  show ?thesis
  proof (cases "status x")
    case Live
    with assms Some show ?thesis
      by (auto simp: endStream_def find_stream_update session_step_def)
  qed (use assms Some in \<open>auto simp: endStream_def session_step_refl\<close>)
qed

lemma recordParticipantJoin_keeps [simp]:
  "s_id (recordParticipantJoin now u s) = s_id s"
  "status (recordParticipantJoin now u s) = status s"
  "ratings (recordParticipantJoin now u s) = ratings s"
  "averageRating (recordParticipantJoin now u s) = averageRating s"
  by (simp_all add: recordParticipantJoin_def Let_def)

lemma recordParticipantLeave_keeps [simp]:
  "s_id (recordParticipantLeave now u s) = s_id s"
  "status (recordParticipantLeave now u s) = status s"
  "ratings (recordParticipantLeave now u s) = ratings s"
  "averageRating (recordParticipantLeave now u s) = averageRating s"
  by (simp_all add: recordParticipantLeave_def Let_def)

lemma frame_joinStream:
  assumes "findSessionById j (sessions st) = Some s"
  shows "\<exists>s'. findSessionById j (sessions (snd (joinStream now req i st))) = Some s'
           \<and> session_step [] s s'"
proof (cases "findSessionById i (sessions st)")
  case None
  with assms show ?thesis by (simp add: joinStream_def session_step_refl)
next
  case (Some x)
  have "\<exists>s'. findSessionById j
          (save_session now (recordParticipantJoin now (req_id req) x) (sessions st)) = Some s'
          \<and> session_step [] s s'"
    by (rule frame_save [OF assms Some]) (simp add: session_step_def)
  with Some frame_keep [OF assms, of "[]"] show ?thesis
    by (auto simp: joinStream_def)
qed

lemma frame_leaveStream:
  assumes "findSessionById j (sessions st) = Some s"
  shows "\<exists>s'. findSessionById j (sessions (snd (leaveStream now req i st))) = Some s'
           \<and> session_step [] s s'"
proof (cases "findSessionById i (sessions st)")
  case None
  with assms show ?thesis by (simp add: leaveStream_def session_step_refl)
next
  case (Some x)
  have "\<exists>s'. findSessionById j
          (save_session now (recordParticipantLeave now (req_id req) x) (sessions st)) = Some s'
          \<and> session_step [] s s'"
    by (rule frame_save [OF assms Some]) (simp add: session_step_def)
  with Some show ?thesis
    by (auto simp: leaveStream_def)
qed

lemma sessions_updateTokens [simp]:
  "sessions (snd (updateTokens now i amount operation st)) = sessions st"
  by (simp add: updateTokens_def split: option.splits)

lemma sessions_purchasePackage [simp]:
  "sessions (snd (purchasePackage now req i pm st)) = sessions st"
  by (simp add: purchasePackage_def Let_def split: option.splits)

subsection \<open>Rejected requests\<close>

lemma updateSession_rejected:
  "status_code (fst (updateSession now req i body st)) \<noteq> 200 \<Longrightarrow>
   snd (updateSession now req i body st) = st"
  by (auto simp: updateSession_def respond_def Let_def split: option.splits if_splits)

lemma startStream_rejected:
  "status_code (fst (startStream build svc now req i st)) \<noteq> 200 \<Longrightarrow>
   snd (startStream build svc now req i st) = st"
  by (auto simp: startStream_def respond_def Let_def split: option.splits if_splits)

lemma endStream_rejected:
  "status_code (fst (endStream now req i st)) \<noteq> 200 \<Longrightarrow> snd (endStream now req i st) = st"
  by (auto simp: endStream_def respond_def split: option.splits if_splits)

lemma joinStream_rejected:
  "status_code (fst (joinStream now req i st)) \<noteq> 200 \<Longrightarrow> snd (joinStream now req i st) = st"
  by (auto simp: joinStream_def respond_def split: option.splits if_splits)

lemma leaveStream_rejected:
  "status_code (fst (leaveStream now req i st)) \<noteq> 200 \<Longrightarrow> snd (leaveStream now req i st) = st"
  by (auto simp: leaveStream_def respond_def split: option.splits if_splits)

lemma handle_rejected:
  "status_code (fst (handle e now r st)) \<noteq> 200 \<Longrightarrow> snd (handle e now r st) = st"
  by (cases r)
     (simp_all add: updateSession_rejected updateSessionStatus_rejected bookSession_rejected
        rateSession_rejected startStream_rejected endStream_rejected joinStream_rejected
        leaveStream_rejected updateTokens_rejected purchasePackage_rejected)

subsection \<open>Ratings\<close>

lemma calculateAverageRating_keeps [simp]:
  "s_id (calculateAverageRating fp s) = s_id s"
  "status (calculateAverageRating fp s) = status s"
  "ratings (calculateAverageRating fp s) = ratings s"
  by (simp_all add: calculateAverageRating_def Let_def)

lemma ratedEntries_distinct:
  assumes "distinct (map r_user rs)"
  shows "distinct (map r_user (ratedEntries now u r fb rs))"
proof (cases "list_ex (\<lambda>e. r_user e = u) rs")
  case True
  have m: "map r_user (map (\<lambda>e. if r_user e = u
                     then e\<lparr>r_rating := r,
                            r_feedback := (if truthy_str fb then fb else r_feedback e),
                            r_createdAt := now\<rparr>
                     else e) rs) = map r_user rs"
    by (induction rs) auto
  show ?thesis
    unfolding ratedEntries_def using True assms by (simp only: if_True m)
next
  case False
  then have "u \<notin> set (map r_user rs)" by (auto simp: list_ex_iff)
  with False assms show ?thesis by (simp add: ratedEntries_def)
qed

lemma frame_rateSession:
  assumes "findSessionById j (sessions st) = Some s"
  shows "\<exists>s'. findSessionById j (sessions (snd (rateSession fp now req i rating fb st))) = Some s'
           \<and> s_id s' = s_id s \<and> status s' = status s
           \<and> (distinct (map r_user (ratings s)) \<longrightarrow> distinct (map r_user (ratings s')))"
proof (cases "status_code (fst (rateSession fp now req i rating fb st)) = 200")
  case False
  then have "snd (rateSession fp now req i rating fb st) = st"
    by (rule rateSession_rejected)
  with assms show ?thesis by simp
next
  case True
  from rateSession_ok [OF True] obtain x r where x: "findSessionById i (sessions st) = Some x"
    and res: "sessions (snd (rateSession fp now req i rating fb st))
               = save_session now
                   (calculateAverageRating fp
                      (x\<lparr>ratings := ratedEntries now (req_id req) r fb (ratings x)\<rparr>))
                   (sessions st)"
    by blast
  from x have id: "s_id x = i" by (simp add: findSessionById_SomeD)
  show ?thesis
  proof (cases "j = i")
    case True
    with assms x have "x = s" by simp
    with True id x show ?thesis
      by (simp add: res find_save_session ratedEntries_distinct)
  next
    case False
    with assms id show ?thesis
      by (simp add: res find_save_session)
  qed
qed

subsection \<open>Status of a session across requests\<close>

lemma handle_status:
  assumes "findSessionById j (sessions st) = Some s"
  shows "\<exists>s'. findSessionById j (sessions (snd (handle e now r st))) = Some s'
           \<and> (status s' = status s \<or> (status s, status s') \<in> set (request_edges r))"
proof (cases r)
  case (UpdateSession req i body)
  with frame_updateSession [OF assms, of now req i body] show ?thesis
    by (auto simp: session_step_def)
next
  case (UpdateSessionStatus req i str)
  with frame_updateSessionStatus [OF assms, of now req i str] show ?thesis
    by (auto simp: session_step_def)
next
  case (BookSession req i)
  with frame_bookSession [OF assms, of now req i] show ?thesis
    by (auto simp: session_step_def)
next
  case (RateSession req i rating fb)
  with frame_rateSession [OF assms, of "e_fp e" now req i rating fb] show ?thesis
    by auto
next
  case (StartStream req i)
  with frame_startStream [OF assms, of "e_build e" "e_svc e" now req i] show ?thesis
    by (auto simp: session_step_def)
next
  case (EndStream req i)
  with frame_endStream [OF assms, of now req i] show ?thesis
    by (auto simp: session_step_def)
next
  case (JoinStream req i)
  with frame_joinStream [OF assms, of now req i] show ?thesis
    by (auto simp: session_step_def)
next
  case (LeaveStream req i)
  with frame_leaveStream [OF assms, of now req i] show ?thesis
    by (auto simp: session_step_def)
next
  case (UpdateTokens i a opn)
  with assms show ?thesis by simp
next
  case (PurchasePackage req i pm)
  with assms show ?thesis by simp
qed

lemma edge_reachable:
  "b = a \<or> (a, b) \<in> set (request_edges r) \<Longrightarrow> set (reachable b) \<subseteq> set (reachable a)"
  by (cases r; cases a; cases b) auto

lemma run_status:
  "statusOf j st = Some a \<Longrightarrow> \<exists>b. statusOf j (run e rs st) = Some b \<and> b \<in> set (reachable a)"
proof (induction rs arbitrary: st a)
  case Nil
  then show ?case by (cases a) simp_all
next
  case (Cons x rs)
  obtain now r where x: "x = (now, r)" by (cases x)
  from Cons.prems obtain s where s: "findSessionById j (sessions st) = Some s" "status s = a"
    by (auto simp: statusOf_def)
  from handle_status [OF s(1), of e now r] s(2)
  obtain b where b: "statusOf j (snd (handle e now r st)) = Some b"
    "b = a \<or> (a, b) \<in> set (request_edges r)"
    by (auto simp: statusOf_def)
  from Cons.IH [OF b(1)] obtain c where "statusOf j (run e rs (snd (handle e now r st))) = Some c"
    "c \<in> set (reachable b)" by blast
  with edge_reachable [OF b(2)] x show ?case by auto
qed

subsection \<open>One rating per user\<close>







subsection \<open>The average\<close>




subsection \<open>Ratings across requests\<close>






subsection \<open>Chat, creation and deletion\<close>

lemma addMessage_keeps [simp]:
  "s_id (addMessage now u msg s) = s_id s"
  "status (addMessage now u msg s) = status s"
  "ratings (addMessage now u msg s) = ratings s"
  "averageRating (addMessage now u msg s) = averageRating s"
  by (simp_all add: addMessage_def Let_def)

lemma addReaction_keeps [simp]:
  "s_id (addReaction now u ty s) = s_id s"
  "status (addReaction now u ty s) = status s"
  "ratings (addReaction now u ty s) = ratings s"
  "averageRating (addReaction now u ty s) = averageRating s"
  by (simp_all add: addReaction_def Let_def)

lemma frame_sendMessage:
  assumes "findSessionById j (sessions st) = Some s"
  shows "\<exists>s'. findSessionById j (sessions (snd (sendMessage now req i msg st))) = Some s'
           \<and> session_step [] s s'"
proof (cases "findSessionById i (sessions st)")
  case None
  with assms show ?thesis by (simp add: sendMessage_def session_step_refl)
next
  case (Some x)
  have "\<exists>s'. findSessionById j
          (save_session now (addMessage now (req_id req) (the msg) x) (sessions st)) = Some s'
          \<and> session_step [] s s'"
    by (rule frame_save [OF assms Some]) (simp add: session_step_def)
  with Some frame_keep [OF assms, of "[]"] show ?thesis
    by (auto simp: sendMessage_def)
qed

lemma frame_sendReaction:
  assumes "findSessionById j (sessions st) = Some s"
  shows "\<exists>s'. findSessionById j (sessions (snd (sendReaction now req i ty st))) = Some s'
           \<and> session_step [] s s'"
proof (cases "findSessionById i (sessions st)")
  case None
  with assms show ?thesis by (simp add: sendReaction_def session_step_refl)
next
  case (Some x)
  have "\<exists>s'. findSessionById j
          (save_session now (addReaction now (req_id req) (the ty) x) (sessions st)) = Some s'
          \<and> session_step [] s s'"
    by (rule frame_save [OF assms Some]) (simp add: session_step_def)
  with Some frame_keep [OF assms, of "[]"] show ?thesis
    by (auto simp: sendReaction_def)
qed

lemma find_append_found:
  "findSessionById j ss = Some s \<Longrightarrow> findSessionById j (ss @ new) = Some s"
  unfolding findSessionById_def by (induction ss) (auto split: if_splits)

lemma frame_createSession:
  assumes "findSessionById j (sessions st) = Some s"
  shows "findSessionById j (sessions (snd (createSession now req i body st))) = Some s"
  using assms by (simp add: createSession_def find_append_found)

lemma find_removed:
  "findSessionById j (filter (\<lambda>s. s_id s \<noteq> i) ss)
     = (if j = i then None else findSessionById j ss)"
  unfolding findSessionById_def by (induction ss) auto

lemma frame_deleteSession:
  assumes "findSessionById j (sessions st) = Some s"
  shows "findSessionById j (sessions (snd (deleteSession req i st))) = Some s
         \<or> (findSessionById j (sessions (snd (deleteSession req i st))) = None
            \<and> j = i \<and> (status s = Scheduled \<or> status s = Cancelled))"
proof (cases "findSessionById i (sessions st)")
  case None
  with assms show ?thesis by (simp add: deleteSession_def)
next
  case (Some x)
  then have id: "s_id x = i" by (simp add: findSessionById_SomeD)
  show ?thesis
  proof (cases "j = i")
    case True
    with assms Some have "x = s" by simp
    with assms Some id True show ?thesis
      by (cases "status s") (auto simp: deleteSession_def find_removed)
  next
    case False
    with assms Some id show ?thesis
      by (auto simp: deleteSession_def find_removed)
  qed
qed

subsection \<open>Status of a session across the API\<close>

lemma handle_api_status:
  assumes "findSessionById j (sessions st) = Some s"
  shows "(statusOf j (snd (handle_api e now r st)) = None
            \<and> (\<exists>req. r = DeleteSession req j)
            \<and> (status s = Scheduled \<or> status s = Cancelled))
         \<or> (\<exists>b. statusOf j (snd (handle_api e now r st)) = Some b
               \<and> (b = status s \<or> (status s, b) \<in> set (api_edges r)))"
proof (cases r)
  case (Handled q)
  with handle_status [OF assms, of e now q] show ?thesis
    by (auto simp: statusOf_def)
next
  case (SendMessage req i msg)
  with frame_sendMessage [OF assms, of now req i msg] show ?thesis
    by (auto simp: statusOf_def session_step_def)
next
  case (SendReaction req i ty)
  with frame_sendReaction [OF assms, of now req i ty] show ?thesis
    by (auto simp: statusOf_def session_step_def)
next
  case (CreateSession req i body)
  with frame_createSession [OF assms, of now req i body] show ?thesis
    by (simp add: statusOf_def)
next
  case (DeleteSession req i)
  with frame_deleteSession [OF assms, of req i] show ?thesis
    by (auto simp: statusOf_def)
qed

lemma api_edge_from_started:
  assumes "a = Live \<or> a = Completed" and "b = a \<or> (a, b) \<in> set (api_edges r)"
  shows "(b = Live \<or> b = Completed) \<and> set (reachable b) \<subseteq> set (reachable a)"
proof (cases r)
  case (Handled q)
  with assms show ?thesis by (cases q; cases a; cases b) auto
qed (use assms in auto)

lemma run_api_started:
  "statusOf j st = Some a \<Longrightarrow> a = Live \<or> a = Completed \<Longrightarrow>
   \<exists>b. statusOf j (run_api e rs st) = Some b \<and> b \<in> set (reachable a)"
proof (induction rs arbitrary: st a)
  case Nil
  then show ?case by auto
next
  case (Cons x rs)
  obtain now r where x: "x = (now, r)" by (cases x)
  from Cons.prems(1) obtain s where s: "findSessionById j (sessions st) = Some s" "status s = a"
    by (auto simp: statusOf_def)
  from handle_api_status [OF s(1), of e now r] s(2) Cons.prems(2)
  obtain b where b: "statusOf j (snd (handle_api e now r st)) = Some b"
    "b = a \<or> (a, b) \<in> set (api_edges r)"
    by auto
  from api_edge_from_started [OF Cons.prems(2) b(2)]
  have b2: "b = Live \<or> b = Completed" and sub: "set (reachable b) \<subseteq> set (reachable a)"
    by simp_all
  from Cons.IH [OF b(1) b2] obtain c where "statusOf j (run_api e rs (snd (handle_api e now r st))) = Some c"
    "c \<in> set (reachable b)" by blast
  with sub x show ?case by auto
qed

lemma run_api_status:
  assumes "statusOf j st = Some a"
  shows "(statusOf j (run_api e rs st) = None \<and> (a = Scheduled \<or> a = Cancelled))
         \<or> (\<exists>b. statusOf j (run_api e rs st) = Some b \<and> b \<in> set (reachable a))"
proof (cases "a = Live \<or> a = Completed")
  case True
  with run_api_started [OF assms, of e rs] show ?thesis by blast
next
  case False
  then have a: "a = Scheduled \<or> a = Cancelled" by (cases a) simp_all
  show ?thesis
  proof (cases "statusOf j (run_api e rs st)")
    case None
    with a show ?thesis by simp
  next
    case (Some b)
    with a show ?thesis by (cases b) auto
  qed
qed

subsection \<open>Refused and accepted status changes\<close>

lemma startStream_refuses:
  assumes "findSessionById j (sessions st) = Some s" and "status s \<noteq> Scheduled"
  shows "400 \<le> status_code (fst (startStream build svc now req j st))
         \<and> snd (startStream build svc now req j st) = st"
  using assms
  by (cases "status s") (auto simp: startStream_def respond_def server_error_def)

lemma endStream_refuses:
  assumes "findSessionById j (sessions st) = Some s" and "status s \<noteq> Live"
  shows "400 \<le> status_code (fst (endStream now req j st))
         \<and> snd (endStream now req j st) = st"
  using assms by (auto simp: endStream_def respond_def)

lemma updateSessionStatus_refuses:
  assumes "findSessionById j (sessions st) = Some s"
    and "status s = Live \<or> status s = Completed
         \<or> (str \<noteq> ''scheduled'' \<and> str \<noteq> ''cancelled'')"
  shows "400 \<le> status_code (fst (updateSessionStatus now req j str st))
         \<and> snd (updateSessionStatus now req j str st) = st"
  using assms by (auto simp: updateSessionStatus_def respond_def)

lemma updateSession_refuses:
  assumes "findSessionById j (sessions st) = Some s"
    and "status s = Live \<or> status s = Completed"
  shows "400 \<le> status_code (fst (updateSession now req j body st))
         \<and> snd (updateSession now req j body st) = st"
  using assms by (auto simp: updateSession_def respond_def)

lemma updateSessionStatus_accepts:
  assumes "findSessionById j (sessions st) = Some s"
    and "trainer s = req_id req \<or> req_role req = Admin"
    and "status s = Scheduled \<or> status s = Cancelled"
  shows "status_code (fst (updateSessionStatus now req j ''scheduled'' st)) = 200"
    and "statusOf j (snd (updateSessionStatus now req j ''scheduled'' st)) = Some Scheduled"
    and "status_code (fst (updateSessionStatus now req j ''cancelled'' st)) = 200"
    and "statusOf j (snd (updateSessionStatus now req j ''cancelled'' st)) = Some Cancelled"
proof -
  from assms(1) have id: "s_id s = j" by (simp add: findSessionById_SomeD)
  from assms id show "status_code (fst (updateSessionStatus now req j ''scheduled'' st)) = 200"
    and "status_code (fst (updateSessionStatus now req j ''cancelled'' st)) = 200"
    by (auto simp: updateSessionStatus_def respond_def Let_def)
  from assms id show "statusOf j (snd (updateSessionStatus now req j ''scheduled'' st)) = Some Scheduled"
    and "statusOf j (snd (updateSessionStatus now req j ''cancelled'' st)) = Some Cancelled"
    by (auto simp: updateSessionStatus_def Let_def statusOf_def find_save_session)
qed

lemma updateSession_status_field:
  assumes "findSessionById j (sessions st) = Some s"
    and "trainer s = req_id req \<or> req_role req = Admin"
    and "status s = Scheduled \<or> status s = Cancelled"
  shows "ub_status body = Some ''live'' \<or> ub_status body = Some ''completed'' \<Longrightarrow>
           status_code (fst (updateSession now req j body st)) = 200
           \<and> statusOf j (snd (updateSession now req j body st)) = Some (status s)"
    and "ub_status body = Some ''scheduled'' \<Longrightarrow>
           status_code (fst (updateSession now req j body st)) = 200
           \<and> statusOf j (snd (updateSession now req j body st)) = Some Scheduled"
    and "ub_status body = Some ''cancelled'' \<Longrightarrow>
           status_code (fst (updateSession now req j body st)) = 200
           \<and> statusOf j (snd (updateSession now req j body st)) = Some Cancelled"
proof -
  from assms(1) have id: "s_id s = j" by (simp add: findSessionById_SomeD)
  show "status_code (fst (updateSession now req j body st)) = 200
           \<and> statusOf j (snd (updateSession now req j body st)) = Some (status s)"
    if "ub_status body = Some ''live'' \<or> ub_status body = Some ''completed''"
    using that assms id
    by (auto simp: updateSession_def Let_def respond_def truthy_str_def statusOf_def
        find_save_session)
  show "status_code (fst (updateSession now req j body st)) = 200
           \<and> statusOf j (snd (updateSession now req j body st)) = Some Scheduled"
    if "ub_status body = Some ''scheduled''"
    using that assms id
    by (auto simp: updateSession_def Let_def respond_def truthy_str_def statusOf_def
        find_save_session status_of_string_def)
  show "status_code (fst (updateSession now req j body st)) = 200
           \<and> statusOf j (snd (updateSession now req j body st)) = Some Cancelled"
    if "ub_status body = Some ''cancelled''"
    using that assms id
    by (auto simp: updateSession_def Let_def respond_def truthy_str_def statusOf_def
        find_save_session status_of_string_def)
qed

text \<open>
  Claim C1, amended. For every stored session and every request that writes sessions
  (those of \<open>handle\<close>, chat, creation and deletion): the request leaves the status as
  it is, or changes it as its kind allows, \<^verbatim>\<open>startStream\<close> from scheduled to live,
  \<^verbatim>\<open>endStream\<close> from live to completed, \<^verbatim>\<open>updateSession\<close> and
  \<^verbatim>\<open>updateSessionStatus\<close> from scheduled to cancelled and from cancelled back to
  scheduled, or it deletes a scheduled or cancelled session. Over any sequence of
  requests a completed session stays completed and a live one is live or completed.
  A request for another change is rejected with an error status and the store as it
  was: \<^verbatim>\<open>startStream\<close> unless the session is scheduled, \<^verbatim>\<open>endStream\<close> unless it
  is live, \<^verbatim>\<open>updateSessionStatus\<close> on a live or completed session or for a target
  other than 'scheduled' and 'cancelled', \<^verbatim>\<open>updateSession\<close> on a live or completed
  session. On a scheduled or cancelled session the trainer or an admin gets 200 from
  \<^verbatim>\<open>updateSessionStatus\<close> and \<^verbatim>\<open>updateSession\<close> for 'scheduled' and for
  'cancelled', which are stored (also when it is the status the session has), and 200
  from \<^verbatim>\<open>updateSession\<close> for 'live' and 'completed', which are ignored.
\<close>

theorem C1_status_moves:
  assumes "findSessionById j (sessions st) = Some s"
  shows "((statusOf j (snd (handle_api e now r st)) = None
             \<and> (\<exists>q. r = DeleteSession q j)
             \<and> (status s = Scheduled \<or> status s = Cancelled))
          \<or> (\<exists>b. statusOf j (snd (handle_api e now r st)) = Some b
                \<and> (b = status s \<or> (status s, b) \<in> set (api_edges r))))
       \<and> ((statusOf j (run_api e rs st) = None
             \<and> (status s = Scheduled \<or> status s = Cancelled))
          \<or> (\<exists>b. statusOf j (run_api e rs st) = Some b \<and> b \<in> set (reachable (status s))))
       \<and> (status s \<noteq> Scheduled \<longrightarrow>
            400 \<le> status_code (fst (startStream build svc now req j st))
            \<and> snd (startStream build svc now req j st) = st)
       \<and> (status s \<noteq> Live \<longrightarrow>
            400 \<le> status_code (fst (endStream now req j st))
            \<and> snd (endStream now req j st) = st)
       \<and> (status s = Live \<or> status s = Completed
            \<or> (str \<noteq> ''scheduled'' \<and> str \<noteq> ''cancelled'') \<longrightarrow>
            400 \<le> status_code (fst (updateSessionStatus now req j str st))
            \<and> snd (updateSessionStatus now req j str st) = st)
       \<and> (status s = Live \<or> status s = Completed \<longrightarrow>
            400 \<le> status_code (fst (updateSession now req j body st))
            \<and> snd (updateSession now req j body st) = st)
       \<and> ((trainer s = req_id req \<or> req_role req = Admin)
            \<and> (status s = Scheduled \<or> status s = Cancelled) \<longrightarrow>
            status_code (fst (updateSessionStatus now req j ''scheduled'' st)) = 200
            \<and> statusOf j (snd (updateSessionStatus now req j ''scheduled'' st)) = Some Scheduled
            \<and> status_code (fst (updateSessionStatus now req j ''cancelled'' st)) = 200
            \<and> statusOf j (snd (updateSessionStatus now req j ''cancelled'' st)) = Some Cancelled
            \<and> (ub_status body = Some ''live'' \<or> ub_status body = Some ''completed'' \<longrightarrow>
                 status_code (fst (updateSession now req j body st)) = 200
                 \<and> statusOf j (snd (updateSession now req j body st)) = Some (status s))
            \<and> (ub_status body = Some ''scheduled'' \<longrightarrow>
                 status_code (fst (updateSession now req j body st)) = 200
                 \<and> statusOf j (snd (updateSession now req j body st)) = Some Scheduled)
            \<and> (ub_status body = Some ''cancelled'' \<longrightarrow>
                 status_code (fst (updateSession now req j body st)) = 200
                 \<and> statusOf j (snd (updateSession now req j body st)) = Some Cancelled))"
proof -
  from assms have so: "statusOf j st = Some (status s)" by (simp add: statusOf_def)
  have c1: "(statusOf j (snd (handle_api e now r st)) = None
             \<and> (\<exists>q. r = DeleteSession q j)
             \<and> (status s = Scheduled \<or> status s = Cancelled))
          \<or> (\<exists>b. statusOf j (snd (handle_api e now r st)) = Some b
                \<and> (b = status s \<or> (status s, b) \<in> set (api_edges r)))"
    by (rule handle_api_status [OF assms])
  have c2: "(statusOf j (run_api e rs st) = None
             \<and> (status s = Scheduled \<or> status s = Cancelled))
          \<or> (\<exists>b. statusOf j (run_api e rs st) = Some b \<and> b \<in> set (reachable (status s)))"
    by (rule run_api_status [OF so])
  have c3: "status s \<noteq> Scheduled \<longrightarrow>
            400 \<le> status_code (fst (startStream build svc now req j st))
            \<and> snd (startStream build svc now req j st) = st"
    by (rule impI) (rule startStream_refuses [OF assms])
  have c4: "status s \<noteq> Live \<longrightarrow>
            400 \<le> status_code (fst (endStream now req j st))
            \<and> snd (endStream now req j st) = st"
    by (rule impI) (rule endStream_refuses [OF assms])
  have c5: "status s = Live \<or> status s = Completed
            \<or> (str \<noteq> ''scheduled'' \<and> str \<noteq> ''cancelled'') \<longrightarrow>
            400 \<le> status_code (fst (updateSessionStatus now req j str st))
            \<and> snd (updateSessionStatus now req j str st) = st"
    by (rule impI) (rule updateSessionStatus_refuses [OF assms])
  have c6: "status s = Live \<or> status s = Completed \<longrightarrow>
            400 \<le> status_code (fst (updateSession now req j body st))
            \<and> snd (updateSession now req j body st) = st"
    by (rule impI) (rule updateSession_refuses [OF assms])
  have c7: "(trainer s = req_id req \<or> req_role req = Admin)
            \<and> (status s = Scheduled \<or> status s = Cancelled) \<longrightarrow>
            status_code (fst (updateSessionStatus now req j ''scheduled'' st)) = 200
            \<and> statusOf j (snd (updateSessionStatus now req j ''scheduled'' st)) = Some Scheduled
            \<and> status_code (fst (updateSessionStatus now req j ''cancelled'' st)) = 200
            \<and> statusOf j (snd (updateSessionStatus now req j ''cancelled'' st)) = Some Cancelled
            \<and> (ub_status body = Some ''live'' \<or> ub_status body = Some ''completed'' \<longrightarrow>
                 status_code (fst (updateSession now req j body st)) = 200
                 \<and> statusOf j (snd (updateSession now req j body st)) = Some (status s))
            \<and> (ub_status body = Some ''scheduled'' \<longrightarrow>
                 status_code (fst (updateSession now req j body st)) = 200
                 \<and> statusOf j (snd (updateSession now req j body st)) = Some Scheduled)
            \<and> (ub_status body = Some ''cancelled'' \<longrightarrow>
                 status_code (fst (updateSession now req j body st)) = 200
                 \<and> statusOf j (snd (updateSession now req j body st)) = Some Cancelled)"
  proof (rule impI, elim conjE)
    assume auth: "trainer s = req_id req \<or> req_role req = Admin"
      and open_: "status s = Scheduled \<or> status s = Cancelled"
    note a1 = updateSessionStatus_accepts [OF assms auth open_, of now]
    note a2 = updateSession_status_field [OF assms auth open_, of body now]
    show "status_code (fst (updateSessionStatus now req j ''scheduled'' st)) = 200
            \<and> statusOf j (snd (updateSessionStatus now req j ''scheduled'' st)) = Some Scheduled
            \<and> status_code (fst (updateSessionStatus now req j ''cancelled'' st)) = 200
            \<and> statusOf j (snd (updateSessionStatus now req j ''cancelled'' st)) = Some Cancelled
            \<and> (ub_status body = Some ''live'' \<or> ub_status body = Some ''completed'' \<longrightarrow>
                 status_code (fst (updateSession now req j body st)) = 200
                 \<and> statusOf j (snd (updateSession now req j body st)) = Some (status s))
            \<and> (ub_status body = Some ''scheduled'' \<longrightarrow>
                 status_code (fst (updateSession now req j body st)) = 200
                 \<and> statusOf j (snd (updateSession now req j body st)) = Some Scheduled)
            \<and> (ub_status body = Some ''cancelled'' \<longrightarrow>
                 status_code (fst (updateSession now req j body st)) = 200
                 \<and> statusOf j (snd (updateSession now req j body st)) = Some Cancelled)"
      by (intro conjI impI a1 a2)
  qed
  show ?thesis
    by (intro conjI) (rule c1, rule c2, rule c3, rule c4, rule c5, rule c6, rule c7)
qed

theorem C1_status_moves_witness:
  "findSessionById ''s1''
      (sessions (mk_store [mk_session ''s1'' ''t1'' Live []] [mk_user ''t1'' Trainer 0 []]))
     = Some (mk_session ''s1'' ''t1'' Live [])
   \<and> status (mk_session ''s1'' ''t1'' Live []) = Live
   \<and> statusOf ''s1'' (snd (handle_api ex_env 7
        (Handled (EndStream \<lparr>req_id = ''t1'', req_role = Trainer\<rparr> ''s1''))
        (mk_store [mk_session ''s1'' ''t1'' Live []] [mk_user ''t1'' Trainer 0 []])))
      = Some Completed
   \<and> statusOf ''s1'' (run_api ex_env
        [(7, Handled (EndStream \<lparr>req_id = ''t1'', req_role = Trainer\<rparr> ''s1'')),
         (8, Handled (UpdateSessionStatus \<lparr>req_id = ''t1'', req_role = Trainer\<rparr> ''s1''
                ''scheduled'')),
         (9, DeleteSession \<lparr>req_id = ''t1'', req_role = Trainer\<rparr> ''s1''),
         (10, Handled (StartStream \<lparr>req_id = ''t1'', req_role = Trainer\<rparr> ''s1''))]
        (mk_store [mk_session ''s1'' ''t1'' Live []] [mk_user ''t1'' Trainer 0 []]))
      = Some Completed
   \<and> startStream (e_build ex_env) (e_svc ex_env) 7 \<lparr>req_id = ''t1'', req_role = Trainer\<rparr> ''s1''
        (mk_store [mk_session ''s1'' ''t1'' Live []] [mk_user ''t1'' Trainer 0 []])
      = (respond 400 ''Session is already live'',
         mk_store [mk_session ''s1'' ''t1'' Live []] [mk_user ''t1'' Trainer 0 []])
   \<and> updateSessionStatus 7 \<lparr>req_id = ''t1'', req_role = Trainer\<rparr> ''s1'' ''cancelled''
        (mk_store [mk_session ''s1'' ''t1'' Live []] [mk_user ''t1'' Trainer 0 []])
      = (respond 400 ''Cannot change status of a live session'',
         mk_store [mk_session ''s1'' ''t1'' Live []] [mk_user ''t1'' Trainer 0 []])
   \<and> updateSession 7 \<lparr>req_id = ''t1'', req_role = Trainer\<rparr> ''s1''
        \<lparr>ub_scheduledAt = None, ub_duration = None, ub_tokenCost = None,
         ub_maxParticipants = None, ub_status = Some ''cancelled''\<rparr>
        (mk_store [mk_session ''s1'' ''t1'' Live []] [mk_user ''t1'' Trainer 0 []])
      = (respond 400 ''Cannot update a live session'',
         mk_store [mk_session ''s1'' ''t1'' Live []] [mk_user ''t1'' Trainer 0 []])
   \<and> findSessionById ''s2''
      (sessions (mk_store [mk_session ''s2'' ''t1'' Scheduled []] [mk_user ''t1'' Trainer 0 []]))
     = Some (mk_session ''s2'' ''t1'' Scheduled [])
   \<and> trainer (mk_session ''s2'' ''t1'' Scheduled []) = ''t1''
   \<and> status (mk_session ''s2'' ''t1'' Scheduled []) = Scheduled
   \<and> endStream 7 \<lparr>req_id = ''t1'', req_role = Trainer\<rparr> ''s2''
        (mk_store [mk_session ''s2'' ''t1'' Scheduled []] [mk_user ''t1'' Trainer 0 []])
      = (respond 400 ''Session is not currently live'',
         mk_store [mk_session ''s2'' ''t1'' Scheduled []] [mk_user ''t1'' Trainer 0 []])
   \<and> statusOf ''s2'' (snd (updateSessionStatus 7 \<lparr>req_id = ''t1'', req_role = Trainer\<rparr> ''s2''
        ''cancelled''
        (mk_store [mk_session ''s2'' ''t1'' Scheduled []] [mk_user ''t1'' Trainer 0 []])))
      = Some Cancelled
   \<and> statusOf ''s2'' (snd (updateSession 7 \<lparr>req_id = ''t1'', req_role = Trainer\<rparr> ''s2''
        \<lparr>ub_scheduledAt = None, ub_duration = None, ub_tokenCost = None,
         ub_maxParticipants = None, ub_status = Some ''live''\<rparr>
        (mk_store [mk_session ''s2'' ''t1'' Scheduled []] [mk_user ''t1'' Trainer 0 []])))
      = Some Scheduled
   \<and> statusOf ''s2'' (snd (handle_api ex_env 7
        (DeleteSession \<lparr>req_id = ''t1'', req_role = Trainer\<rparr> ''s2'')
        (mk_store [mk_session ''s2'' ''t1'' Scheduled []] [mk_user ''t1'' Trainer 0 []])))
      = None"
  using C1_status_moves [where j = "''s1''"
      and st = "mk_store [mk_session ''s1'' ''t1'' Live []] [mk_user ''t1'' Trainer 0 []]"
      and s = "mk_session ''s1'' ''t1'' Live []" and e = ex_env and now = 7
      and r = "Handled (EndStream \<lparr>req_id = ''t1'', req_role = Trainer\<rparr> ''s1'')"
      and rs = "[(7, Handled (EndStream \<lparr>req_id = ''t1'', req_role = Trainer\<rparr> ''s1'')),
         (8, Handled (UpdateSessionStatus \<lparr>req_id = ''t1'', req_role = Trainer\<rparr> ''s1''
                ''scheduled'')),
         (9, DeleteSession \<lparr>req_id = ''t1'', req_role = Trainer\<rparr> ''s1''),
         (10, Handled (StartStream \<lparr>req_id = ''t1'', req_role = Trainer\<rparr> ''s1''))]"
      and build = "e_build ex_env" and svc = "e_svc ex_env"
      and req = "\<lparr>req_id = ''t1'', req_role = Trainer\<rparr>" and str = "''cancelled''"
      and body = "\<lparr>ub_scheduledAt = None, ub_duration = None, ub_tokenCost = None,
         ub_maxParticipants = None, ub_status = Some ''cancelled''\<rparr>"]
    C1_status_moves [where j = "''s2''"
      and st = "mk_store [mk_session ''s2'' ''t1'' Scheduled []] [mk_user ''t1'' Trainer 0 []]"
      and s = "mk_session ''s2'' ''t1'' Scheduled []" and e = ex_env and now = 7
      and r = "DeleteSession \<lparr>req_id = ''t1'', req_role = Trainer\<rparr> ''s2''"
      and rs = "[]"
      and build = "e_build ex_env" and svc = "e_svc ex_env"
      and req = "\<lparr>req_id = ''t1'', req_role = Trainer\<rparr>" and str = "''cancelled''"
      and body = "\<lparr>ub_scheduledAt = None, ub_duration = None, ub_tokenCost = None,
         ub_maxParticipants = None, ub_status = Some ''live''\<rparr>"]
  by (simp add: model_defs statusOf_def)

text \<open>
  Claim C1 as stated fails in three places. A cancelled session is set back to scheduled
  by \<^verbatim>\<open>updateSessionStatus\<close> with 200, and can then be started by its trainer.
  \<^verbatim>\<open>updateSession\<close> asked for 'completed' on a scheduled session is not rejected: it
  answers 200 and leaves the status. \<^verbatim>\<open>updateSessionStatus\<close> asked for 'scheduled'
  on a scheduled session answers 200 as well.
\<close>

theorem C1_cancelled_not_terminal_counterexample:
  "statusOf ''s1'' (mk_store [mk_session ''s1'' ''t1'' Cancelled []] [mk_user ''t1'' Trainer 0 []])
     = Some Cancelled
   \<and> fst (updateSessionStatus 5 \<lparr>req_id = ''t1'', req_role = Trainer\<rparr> ''s1'' ''scheduled''
        (mk_store [mk_session ''s1'' ''t1'' Cancelled []] [mk_user ''t1'' Trainer 0 []]))
      = respond 200 ''Session updated successfully''
   \<and> statusOf ''s1'' (snd (updateSessionStatus 5 \<lparr>req_id = ''t1'', req_role = Trainer\<rparr> ''s1''
        ''scheduled''
        (mk_store [mk_session ''s1'' ''t1'' Cancelled []] [mk_user ''t1'' Trainer 0 []])))
      = Some Scheduled
   \<and> statusOf ''s1'' (run_api ex_env
        [(5, Handled (UpdateSessionStatus \<lparr>req_id = ''t1'', req_role = Trainer\<rparr> ''s1''
                ''scheduled'')),
         (6, Handled (StartStream \<lparr>req_id = ''t1'', req_role = Trainer\<rparr> ''s1''))]
        (mk_store [mk_session ''s1'' ''t1'' Cancelled []] [mk_user ''t1'' Trainer 0 []]))
      = Some Live
   \<and> statusOf ''s2'' (mk_store [mk_session ''s2'' ''t1'' Scheduled []] [mk_user ''t1'' Trainer 0 []])
     = Some Scheduled
   \<and> fst (updateSession 5 \<lparr>req_id = ''t1'', req_role = Trainer\<rparr> ''s2''
        \<lparr>ub_scheduledAt = None, ub_duration = None, ub_tokenCost = None,
         ub_maxParticipants = None, ub_status = Some ''completed''\<rparr>
        (mk_store [mk_session ''s2'' ''t1'' Scheduled []] [mk_user ''t1'' Trainer 0 []]))
      = respond 200 ''OK''
   \<and> statusOf ''s2'' (snd (updateSession 5 \<lparr>req_id = ''t1'', req_role = Trainer\<rparr> ''s2''
        \<lparr>ub_scheduledAt = None, ub_duration = None, ub_tokenCost = None,
         ub_maxParticipants = None, ub_status = Some ''completed''\<rparr>
        (mk_store [mk_session ''s2'' ''t1'' Scheduled []] [mk_user ''t1'' Trainer 0 []])))
      = Some Scheduled
   \<and> fst (updateSessionStatus 5 \<lparr>req_id = ''t1'', req_role = Trainer\<rparr> ''s2'' ''scheduled''
        (mk_store [mk_session ''s2'' ''t1'' Scheduled []] [mk_user ''t1'' Trainer 0 []]))
      = respond 200 ''Session updated successfully''"
  by (simp add: model_defs statusOf_def)

end
